theory Spec2Isabelle
  imports Main "HOL-Library.Multiset" "HOL-Library.Char_ord" "HOL-Library.List_Lexorder"
begin

section \<open>Strings\<close>

text \<open>
  JavaScript strings are modelled as \<open>string\<close> (lists of 8-bit characters), so the
  model speaks about ASCII text. \<open>toLowerCase\<close> folds the letters \<open>A\<close> to \<open>Z\<close> and
  leaves every other character alone. \<open>stringIncludes\<close> (the method \<open>includes\<close>,
  whose name is a keyword here), \<open>startsWith\<close> and \<open>endsWith\<close> are the methods of
  \<open>String.prototype\<close> with the receiver as first argument.
\<close>

definition toLowerChar :: "char \<Rightarrow> char" where
  "toLowerChar c =
     (case map_of (zip ''ABCDEFGHIJKLMNOPQRSTUVWXYZ'' ''abcdefghijklmnopqrstuvwxyz'') c of
        None \<Rightarrow> c
      | Some l \<Rightarrow> l)"

definition toLowerCase :: "string \<Rightarrow> string" where
  "toLowerCase s = map toLowerChar s"

fun startsWith :: "string \<Rightarrow> string \<Rightarrow> bool" where
  "startsWith s [] = True"
| "startsWith [] (p # ps) = False"
| "startsWith (c # cs) (p # ps) = (c = p \<and> startsWith cs ps)"

fun stringIncludes :: "string \<Rightarrow> string \<Rightarrow> bool" where
  "stringIncludes [] sub = (sub = [])"
| "stringIncludes (c # cs) sub = (startsWith (c # cs) sub \<or> stringIncludes cs sub)"

definition endsWith :: "string \<Rightarrow> string \<Rightarrow> bool" where
  "endsWith s suffix = startsWith (rev s) (rev suffix)"

section \<open>Documents\<close>

text \<open>
  The interface \<open>TerragruntDoc\<close>. The field \<open>section\<close> of the source is called
  \<open>docSection\<close> here, \<open>section\<close> being a keyword of the theory language.
  \<open>lastUpdated\<close> is an optional time stamp, kept as the date it denotes; the code
  only writes it and passes it on.
\<close>

datatype jsdate = ValidDate int | InvalidDate

record TerragruntDoc =
  title :: string
  url :: string
  content :: string
  docSection :: string
  lastUpdated :: "jsdate option"

section \<open>Array.prototype.sort\<close>

text \<open>
  \<open>Array.prototype.sort\<close> with a comparator is stable (ECMAScript 2019). It is modelled
  by insertion from the right: an element is put in front of the first element of the
  sorted rest that the comparator does not rank before it, so elements that compare equal
  keep their order. For a comparator that is consistent (as \<open>compareDocs\<close> below is)
  every stable sort returns this same list.
\<close>

fun insertSorted :: "('a \<Rightarrow> 'a \<Rightarrow> int) \<Rightarrow> 'a \<Rightarrow> 'a list \<Rightarrow> 'a list" where
  "insertSorted cmp x [] = [x]"
| "insertSorted cmp x (y # ys) =
     (if cmp x y \<le> 0 then x # y # ys else y # insertSorted cmp x ys)"

definition arraySort :: "('a \<Rightarrow> 'a \<Rightarrow> int) \<Rightarrow> 'a list \<Rightarrow> 'a list" where
  "arraySort cmp xs = foldr (insertSorted cmp) xs []"

section \<open>searchDocs: filter and rank\<close>

text \<open>
  The comparator passed to \<open>sort\<close> in \<open>searchDocs\<close>, and the body of \<open>searchDocs\<close> after
  the corpus has been obtained from \<open>fetchLatestDocs\<close>.
\<close>

definition compareDocs :: "string \<Rightarrow> TerragruntDoc \<Rightarrow> TerragruntDoc \<Rightarrow> int" where
  "compareDocs lowercaseQuery a b =
     (let aTitle = stringIncludes (toLowerCase (title a)) lowercaseQuery;
          bTitle = stringIncludes (toLowerCase (title b)) lowercaseQuery
      in if aTitle \<and> \<not> bTitle then - 1
         else if \<not> aTitle \<and> bTitle then 1
         else
           (let aSection = stringIncludes (toLowerCase (docSection a)) lowercaseQuery;
                bSection = stringIncludes (toLowerCase (docSection b)) lowercaseQuery
            in if aSection \<and> \<not> bSection then - 1
               else if \<not> aSection \<and> bSection then 1
               else 0))"

definition searchDocs_body :: "TerragruntDoc list \<Rightarrow> string \<Rightarrow> TerragruntDoc list" where
  "searchDocs_body docs query =
     (let lowercaseQuery = toLowerCase query
      in arraySort (compareDocs lowercaseQuery)
           (filter (\<lambda>doc. stringIncludes (toLowerCase (title doc)) lowercaseQuery \<or>
                          stringIncludes (toLowerCase (content doc)) lowercaseQuery \<or>
                          stringIncludes (toLowerCase (docSection doc)) lowercaseQuery) docs))"

text \<open>The three tests of the search, named: the folded field contains the folded query.\<close>

definition titleHit :: "string \<Rightarrow> TerragruntDoc \<Rightarrow> bool" where
  "titleHit query d = stringIncludes (toLowerCase (title d)) (toLowerCase query)"

definition contentHit :: "string \<Rightarrow> TerragruntDoc \<Rightarrow> bool" where
  "contentHit query d = stringIncludes (toLowerCase (content d)) (toLowerCase query)"

definition sectionHit :: "string \<Rightarrow> TerragruntDoc \<Rightarrow> bool" where
  "sectionHit query d = stringIncludes (toLowerCase (docSection d)) (toLowerCase query)"

definition docMatches :: "string \<Rightarrow> TerragruntDoc \<Rightarrow> bool" where
  "docMatches query d = (titleHit query d \<or> contentHit query d \<or> sectionHit query d)"

text \<open>The rank that the comparator induces: title hits first, then section hits.\<close>

definition rank :: "string \<Rightarrow> TerragruntDoc \<Rightarrow> nat" where
  "rank query d = (if titleHit query d then 0 else 2) + (if sectionHit query d then 0 else 1)"

section \<open>White space\<close>

text \<open>
  The white space of \<open>trim\<close> and of the class \<open>\s\<close>, within ASCII: space, tab, line
  feed, vertical tab, form feed and carriage return.
\<close>

definition isSpace :: "char \<Rightarrow> bool" where
  "isSpace c = (c = CHR 0x20 \<or> c = CHR 0x09 \<or> c = CHR 0x0A \<or> c = CHR 0x0B \<or>
                c = CHR 0x0C \<or> c = CHR 0x0D)"

definition trim :: "string \<Rightarrow> string" where
  "trim s = rev (dropWhile isSpace (rev (dropWhile isSpace s)))"

text \<open>
  \<open>cleanContent\<close>: \<open>replace(/\s+/g, ' ')\<close> turns every run of white space into one
  space (\<open>collapseSpaces\<close>; the flag says that the previous character was white space).
  The two replacements that follow it in the source look for a line feed and for a tab,
  and none is left in the string by then, so they change nothing; \<open>trim\<close> is last.
\<close>

fun collapseSpaces :: "bool \<Rightarrow> string \<Rightarrow> string" where
  "collapseSpaces prev [] = []"
| "collapseSpaces prev (c # cs) =
     (if isSpace c then (if prev then collapseSpaces True cs
                         else CHR 0x20 # collapseSpaces True cs)
      else c # collapseSpaces False cs)"

definition cleanContent :: "string \<Rightarrow> string" where
  "cleanContent s = trim (collapseSpaces False s)"

text \<open>\<open>s.split(sep)\<close> for a separator of one character.\<close>

fun splitOn :: "char \<Rightarrow> string \<Rightarrow> string list" where
  "splitOn sep [] = [[]]"
| "splitOn sep (c # cs) =
     (if c = sep then [] # splitOn sep cs
      else (case splitOn sep cs of [] \<Rightarrow> [[c]] | p # ps \<Rightarrow> (c # p) # ps))"

section \<open>The cache: a Map in insertion order\<close>

text \<open>
  \<open>docsCache\<close> is a \<open>Map<string, TerragruntDoc>\<close>. A JavaScript \<open>Map\<close> iterates in the
  order of first insertion and \<open>set\<close> on a present key replaces the value in place, so
  the map is a list of pairs with \<open>mapSet\<close> for \<open>set\<close> and \<open>mapValues\<close> for
  \<open>Array.from(m.values())\<close>.
\<close>

type_synonym cache = "(string \<times> TerragruntDoc) list"

fun mapSet :: "string \<Rightarrow> TerragruntDoc \<Rightarrow> cache \<Rightarrow> cache" where
  "mapSet k v [] = [(k, v)]"
| "mapSet k v ((k', v') # m) = (if k = k' then (k, v) # m else (k', v') # mapSet k v m)"

definition mapValues :: "cache \<Rightarrow> TerragruntDoc list" where
  "mapValues m = map snd m"

record DocsManager =
  docsCache :: cache
  lastFetchTime :: "jsdate option"

definition baseUrl :: string where
  "baseUrl = ''https://terragrunt.gruntwork.io''"

definition cacheExpiry :: int where
  "cacheExpiry = 24 * 60 * 60 * 1000"

section \<open>The world outside: clock, disk, network\<close>

text \<open>
  Thrown values are \<open>error\<close>s and a computation that may throw returns \<open>error + 'a\<close>.

  A file of the disk cache is \<open>Missing\<close> (\<open>fs.access\<close> rejects), \<open>Corrupt\<close> (it is there
  and \<open>fs.readFile\<close> or \<open>JSON.parse\<close> throws, or the parsed value is \<open>null\<close>, so that
  reading a property of it throws) or \<open>Parsed\<close> with its value. The metadata file holds
  \<open>lastFetchTime\<close>, kept as the date that \<open>new Date\<close> makes of it (\<open>InvalidDate\<close> for a
  missing or unreadable time stamp), and \<open>docsCount\<close>. The documents file holds a value
  that is not an array, or an array whose elements are documents or \<open>null\<close>.
\<close>

datatype error = Error string

datatype 'a diskFile = Missing | Corrupt | Parsed 'a

record CacheMetadata =
  metaLastFetchTime :: jsdate
  docsCount :: nat

datatype docsJson = NotAnArray | DocArray "TerragruntDoc option list"

text \<open>
  A page of HTML is what the \<open>cheerio\<close> selectors of the source read from it: the
  anchors (\<open>href\<close>, text) under the navigation selectors and under the content selectors,
  the text of the first content container if any selector finds one, and the text of
  the body. A request is answered by a \<open>Response\<close> with its \<open>ok\<close> flag and page, or
  fails (\<open>fetch\<close> or \<open>response.text()\<close> rejects).
\<close>

record html =
  navLinks :: "(string \<times> string) list"
  contentLinks :: "(string \<times> string) list"
  containerText :: "string option"
  bodyText :: string

datatype response = NetworkError | Response bool html

text \<open>
  The world: the clock (\<open>Date.now()\<close>, one instant for the whole call), the two cache
  files and whether each can be written, the network as a function of the number of
  requests made so far and of the URL, and the log of the URLs requested.
\<close>

record World =
  now :: int
  cacheFile :: "docsJson diskFile"
  metadataFile :: "CacheMetadata diskFile"
  cacheFileWritable :: bool
  metadataFileWritable :: bool
  net :: "nat \<Rightarrow> string \<Rightarrow> response"
  requests :: "string list"

definition fetch :: "World \<Rightarrow> string \<Rightarrow> response \<times> World" where
  "fetch w u = (net w (length (requests w)) u, w\<lparr>requests := requests w @ [u]\<rparr>)"

section \<open>loadCacheFromDisk and saveCacheToDisk\<close>

definition fileExists :: "'a diskFile \<Rightarrow> bool" where
  "fileExists f = (case f of Missing \<Rightarrow> False | Corrupt \<Rightarrow> True | Parsed x \<Rightarrow> True)"

text \<open>
  \<open>Date.now() - d.getTime() > cacheExpiry\<close>. Of an invalid date \<open>getTime()\<close> is \<open>NaN\<close>
  and every comparison with \<open>NaN\<close> is false.
\<close>

definition olderThanExpiry :: "int \<Rightarrow> jsdate \<Rightarrow> bool" where
  "olderThanExpiry t d =
     (case d of ValidDate t0 \<Rightarrow> t - t0 > cacheExpiry | InvalidDate \<Rightarrow> False)"

text \<open>
  \<open>docs.forEach(doc => this.docsCache.set(doc.url, doc))\<close>: reading \<open>url\<close> of a \<open>null\<close>
  element throws, with the earlier elements already in the map.
\<close>

fun forEachSet :: "TerragruntDoc option list \<Rightarrow> cache \<Rightarrow> (error + unit) \<times> cache" where
  "forEachSet [] c = (Inr (), c)"
| "forEachSet (None # ds) c = (Inl (Error ''TypeError''), c)"
| "forEachSet (Some doc # ds) c = forEachSet ds (mapSet (url doc) doc c)"

text \<open>The body of the \<open>try\<close> block of \<open>loadCacheFromDisk\<close>, then the function with its \<open>catch\<close>.\<close>

definition loadCacheFromDisk_try :: "World \<Rightarrow> DocsManager \<Rightarrow> (error + bool) \<times> DocsManager" where
  "loadCacheFromDisk_try w m =
     (let docsExists = fileExists (cacheFile w);
          metadataExists = fileExists (metadataFile w)
      in if \<not> docsExists \<or> \<not> metadataExists then (Inr False, m)
         else
           (case metadataFile w of
              Missing \<Rightarrow> (Inl (Error ''ENOENT''), m)
            | Corrupt \<Rightarrow> (Inl (Error ''metadata unreadable''), m)
            | Parsed metadata \<Rightarrow>
                if olderThanExpiry (now w) (metaLastFetchTime metadata) then (Inr False, m)
                else
                  (case cacheFile w of
                     Missing \<Rightarrow> (Inl (Error ''ENOENT''), m)
                   | Corrupt \<Rightarrow> (Inl (Error ''docs unreadable''), m)
                   | Parsed NotAnArray \<Rightarrow> (Inl (Error ''TypeError''), m\<lparr>docsCache := []\<rparr>)
                   | Parsed (DocArray docs) \<Rightarrow>
                       (case forEachSet docs [] of
                          (Inl e, c) \<Rightarrow> (Inl e, m\<lparr>docsCache := c\<rparr>)
                        | (Inr u, c) \<Rightarrow>
                            (Inr True,
                             m\<lparr>docsCache := c,
                               lastFetchTime := Some (metaLastFetchTime metadata)\<rparr>)))))"

definition loadCacheFromDisk :: "World \<Rightarrow> DocsManager \<Rightarrow> (error + bool) \<times> DocsManager" where
  "loadCacheFromDisk w m =
     (case loadCacheFromDisk_try w m of
        (Inl e, m') \<Rightarrow> (Inr False, m')
      | (Inr loaded, m') \<Rightarrow> (Inr loaded, m'))"

text \<open>
  \<open>saveCacheToDisk\<close>. \<open>ensureCacheDir\<close> swallows its own error and has no other effect
  here. \<open>toISOString\<close> of an invalid date throws. The two \<open>writeFile\<close> calls run together
  under \<open>Promise.all\<close>: each writes its file if it can, and the block throws if one
  of them could not (a write that fails is taken to leave its file as it was).
\<close>

definition saveCacheToDisk_try :: "World \<Rightarrow> DocsManager \<Rightarrow> (error + unit) \<times> World" where
  "saveCacheToDisk_try w m =
     (let docs = mapValues (docsCache m)
      in case (case lastFetchTime m of
                 None \<Rightarrow> Inr (ValidDate (now w))
               | Some (ValidDate t) \<Rightarrow> Inr (ValidDate t)
               | Some InvalidDate \<Rightarrow> Inl (Error ''RangeError''))
         of Inl e \<Rightarrow> (Inl e, w)
          | Inr stamp \<Rightarrow>
              (let metadata = \<lparr>metaLastFetchTime = stamp, docsCount = length docs\<rparr>;
                   w1 = (if cacheFileWritable w
                         then w\<lparr>cacheFile := Parsed (DocArray (map Some docs))\<rparr> else w);
                   w2 = (if metadataFileWritable w
                         then w1\<lparr>metadataFile := Parsed metadata\<rparr> else w1)
               in if cacheFileWritable w \<and> metadataFileWritable w then (Inr (), w2)
                  else (Inl (Error ''write failed''), w2)))"

definition saveCacheToDisk :: "World \<Rightarrow> DocsManager \<Rightarrow> (error + unit) \<times> World" where
  "saveCacheToDisk w m =
     (case saveCacheToDisk_try w m of
        (Inl e, w') \<Rightarrow> (Inr (), w')
      | (Inr u, w') \<Rightarrow> (Inr (), w'))"

section \<open>The corpus source\<close>

record page =
  pageUrl :: string
  pageTitle :: string
  pageSection :: string

definition extractSection :: "string \<Rightarrow> string" where
  "extractSection href =
     (let pathParts = filter (\<lambda>part. part \<noteq> []) (splitOn CHR ''/'' href)
      in if length pathParts \<ge> 2 then pathParts ! 1 else ''general'')"

text \<open>
  One \<open>each\<close> loop of \<open>getDocumentationPages\<close> over the anchors of a selector: the text is
  trimmed, and a link is pushed when \<open>href\<close> and title are not empty and no page has its
  URL yet.
\<close>

fun addLinks :: "(string \<times> string) list \<Rightarrow> page list \<Rightarrow> page list" where
  "addLinks [] pages = pages"
| "addLinks ((href, text) # links) pages =
     addLinks links
       (let title = trim text
        in if href \<noteq> [] \<and> title \<noteq> [] \<and>
              \<not> list_ex (\<lambda>p. pageUrl p = baseUrl @ href) pages
           then pages @ [\<lparr>pageUrl = baseUrl @ href, pageTitle = title,
                           pageSection = extractSection href\<rparr>]
           else pages)"

definition coreDocs :: "page list" where
  "coreDocs =
     [\<lparr>pageUrl = baseUrl @ ''/docs/getting-started/quick-start/'',
       pageTitle = ''Quick Start'', pageSection = ''getting-started''\<rparr>,
      \<lparr>pageUrl = baseUrl @ ''/docs/reference/config-blocks-and-attributes/'',
       pageTitle = ''Configuration Reference'', pageSection = ''reference''\<rparr>,
      \<lparr>pageUrl = baseUrl @ ''/docs/features/keep-your-terraform-code-dry/'',
       pageTitle = ''Keep Your Code DRY'', pageSection = ''features''\<rparr>,
      \<lparr>pageUrl = baseUrl @
         ''/docs/features/execute-terraform-commands-on-multiple-modules-at-once/'',
       pageTitle = ''Multiple Modules'', pageSection = ''features''\<rparr>]"

fun addCoreDocs :: "page list \<Rightarrow> page list \<Rightarrow> page list" where
  "addCoreDocs [] pages = pages"
| "addCoreDocs (coreDoc # rest) pages =
     addCoreDocs rest
       (if \<not> list_ex (\<lambda>p. pageUrl p = pageUrl coreDoc) pages then pages @ [coreDoc]
        else pages)"

text \<open>
  \<open>getDocumentationPages\<close> makes one request for the index and does not look at
  \<open>response.ok\<close>; it throws when the request fails.
\<close>

definition getDocumentationPages :: "World \<Rightarrow> (error + page list) \<times> World" where
  "getDocumentationPages w =
     (case fetch w (baseUrl @ ''/docs/'') of
        (NetworkError, w') \<Rightarrow> (Inl (Error ''fetch failed''), w')
      | (Response ok h, w') \<Rightarrow>
          (Inr (addCoreDocs coreDocs (addLinks (contentLinks h) (addLinks (navLinks h) []))),
           w'))"

text \<open>
  \<open>fetchDocumentPage\<close>: a response that is not \<open>ok\<close> gives \<open>null\<close>; the content is the
  trimmed text of the first container found, or of the body when that is empty; a page
  without content gives \<open>null\<close>; an error thrown inside is caught and gives \<open>null\<close>.
\<close>

definition fetchDocumentPage_try :: "World \<Rightarrow> page \<Rightarrow> (error + TerragruntDoc option) \<times> World" where
  "fetchDocumentPage_try w pg =
     (case fetch w (pageUrl pg) of
        (NetworkError, w') \<Rightarrow> (Inl (Error ''fetch failed''), w')
      | (Response ok h, w') \<Rightarrow>
          if \<not> ok then (Inr None, w')
          else
            (let content0 = (case containerText h of None \<Rightarrow> [] | Some t \<Rightarrow> trim t);
                 content1 = (if content0 = [] then trim (bodyText h) else content0)
             in if content1 = [] then (Inr None, w')
                else (Inr (Some \<lparr>title = pageTitle pg, url = pageUrl pg,
                                  content = cleanContent content1,
                                  docSection = pageSection pg,
                                  lastUpdated = Some (ValidDate (now w'))\<rparr>), w')))"

definition fetchDocumentPage :: "World \<Rightarrow> page \<Rightarrow> (error + TerragruntDoc option) \<times> World" where
  "fetchDocumentPage w pg =
     (case fetchDocumentPage_try w pg of
        (Inl e, w') \<Rightarrow> (Inr None, w')
      | (Inr doc, w') \<Rightarrow> (Inr doc, w'))"

section \<open>refreshDocsCache and fetchLatestDocs\<close>

text \<open>The \<open>for\<close> loop of \<open>refreshDocsCache\<close> over the pages, on the cleared map.\<close>

fun fetchPages :: "page list \<Rightarrow> World \<Rightarrow> cache \<Rightarrow> (error + unit) \<times> World \<times> cache" where
  "fetchPages [] w c = (Inr (), w, c)"
| "fetchPages (pg # pages) w c =
     (case fetchDocumentPage w pg of
        (Inl e, w') \<Rightarrow> (Inl e, w', c)
      | (Inr None, w') \<Rightarrow> fetchPages pages w' c
      | (Inr (Some doc), w') \<Rightarrow> fetchPages pages w' (mapSet (url doc) doc c))"

definition refreshDocsCache_try ::
  "World \<Rightarrow> DocsManager \<Rightarrow> (error + unit) \<times> World \<times> DocsManager" where
  "refreshDocsCache_try w m =
     (case getDocumentationPages w of
        (Inl e, w1) \<Rightarrow> (Inl e, w1, m)
      | (Inr docPages, w1) \<Rightarrow>
          (case fetchPages docPages w1 [] of
             (Inl e, w2, c) \<Rightarrow> (Inl e, w2, m\<lparr>docsCache := c\<rparr>)
           | (Inr u, w2, c) \<Rightarrow>
               (let m2 = m\<lparr>docsCache := c, lastFetchTime := Some (ValidDate (now w2))\<rparr>
                in case saveCacheToDisk w2 m2 of
                     (Inl e, w3) \<Rightarrow> (Inl e, w3, m2)
                   | (Inr u', w3) \<Rightarrow> (Inr (), w3, m2))))"

definition refreshDocsCache ::
  "World \<Rightarrow> DocsManager \<Rightarrow> (error + unit) \<times> World \<times> DocsManager" where
  "refreshDocsCache w m =
     (case refreshDocsCache_try w m of
        (Inl e, w', m') \<Rightarrow> (Inr (), w', m')
      | (Inr u, w', m') \<Rightarrow> (Inr (), w', m'))"

definition shouldRefreshCache :: "World \<Rightarrow> DocsManager \<Rightarrow> bool" where
  "shouldRefreshCache w m =
     (case lastFetchTime m of
        None \<Rightarrow> True
      | Some d \<Rightarrow> olderThanExpiry (now w) d)"

text \<open>
  \<open>fetchLatestDocs\<close>. \<open>fetchLatestDocs_refresh\<close> is its second half, from the comment
  ``Refresh if needed'' on.
\<close>

definition fetchLatestDocs_refresh ::
  "World \<Rightarrow> DocsManager \<Rightarrow> (error + TerragruntDoc list) \<times> World \<times> DocsManager" where
  "fetchLatestDocs_refresh w m =
     (if shouldRefreshCache w m
      then (case refreshDocsCache w m of
              (Inl e, w', m') \<Rightarrow> (Inl e, w', m')
            | (Inr u, w', m') \<Rightarrow> (Inr (mapValues (docsCache m')), w', m'))
      else (Inr (mapValues (docsCache m)), w, m))"

definition fetchLatestDocs ::
  "World \<Rightarrow> DocsManager \<Rightarrow> (error + TerragruntDoc list) \<times> World \<times> DocsManager" where
  "fetchLatestDocs w m =
     (if length (docsCache m) = 0
      then (case loadCacheFromDisk w m of
              (Inl e, m1) \<Rightarrow> (Inl e, w, m1)
            | (Inr loaded, m1) \<Rightarrow>
                if loaded \<and> \<not> shouldRefreshCache w m1
                then (Inr (mapValues (docsCache m1)), w, m1)
                else fetchLatestDocs_refresh w m1)
      else fetchLatestDocs_refresh w m)"

section \<open>A refresh suspended at an await\<close>

text \<open>
  \<open>refreshDocsCache\<close> awaits \<open>fetchDocumentPage\<close> once for each page, and while it waits
  other calls run on the same manager. \<open>refreshSuspended k\<close> is the refresh up to the
  point where the map has been cleared and the first \<open>k\<close> pages have been stored: it
  gives the world, the manager as the other calls find it, and the pages still to fetch.
  \<open>refreshResumed\<close> is the rest of \<open>refreshDocsCache\<close>, with its \<open>catch\<close>, from that point
  on, on the manager as the other calls have left it. (The request that the suspended
  refresh is waiting for enters the log when the refresh resumes.)
\<close>

definition refreshSuspended ::
  "nat \<Rightarrow> World \<Rightarrow> DocsManager \<Rightarrow> (World \<times> DocsManager \<times> page list) option" where
  "refreshSuspended k w m =
     (case getDocumentationPages w of
        (Inl e, w1) \<Rightarrow> None
      | (Inr docPages, w1) \<Rightarrow>
          (case fetchPages (take k docPages) w1 [] of
             (Inl e, w2, c) \<Rightarrow> None
           | (Inr u, w2, c) \<Rightarrow> Some (w2, m\<lparr>docsCache := c\<rparr>, drop k docPages)))"

definition refreshResumed ::
  "World \<Rightarrow> DocsManager \<Rightarrow> page list \<Rightarrow> (error + unit) \<times> World \<times> DocsManager" where
  "refreshResumed w m rest =
     (case fetchPages rest w (docsCache m) of
        (Inl e, w2, c) \<Rightarrow> (Inr (), w2, m\<lparr>docsCache := c\<rparr>)
      | (Inr u, w2, c) \<Rightarrow>
          (let m2 = m\<lparr>docsCache := c, lastFetchTime := Some (ValidDate (now w2))\<rparr>
           in case saveCacheToDisk w2 m2 of
                (Inl e, w3) \<Rightarrow> (Inr (), w3, m2)
              | (Inr u', w3) \<Rightarrow> (Inr (), w3, m2)))"

section \<open>The other retrieval operations, on a corpus\<close>

text \<open>
  \<open>xs.slice(0, n)\<close> for an integer \<open>n\<close>: a negative \<open>n\<close> counts from the end of the
  array, and the end index is clamped to the array.
\<close>

definition sliceTo :: "int \<Rightarrow> 'a list \<Rightarrow> 'a list" where
  "sliceTo n xs =
     (let len = int (length xs);
          final = (if n < 0 then max (len + n) 0 else min n len)
      in take (nat final) xs)"

text \<open>\<open>Array.from(new Set(xs))\<close>: the first occurrence of each element, in order.\<close>

definition setAdd :: "'a list \<Rightarrow> 'a \<Rightarrow> 'a list" where
  "setAdd acc x = (if x \<in> set acc then acc else acc @ [x])"

definition arrayFromSet :: "'a list \<Rightarrow> 'a list" where
  "arrayFromSet xs = foldl setAdd [] xs"

definition getDocBySection_body :: "TerragruntDoc list \<Rightarrow> string \<Rightarrow> TerragruntDoc list" where
  "getDocBySection_body docs sect = filter (\<lambda>doc. docSection doc = sect) docs"

text \<open>
  \<open>sort()\<close> without a comparator orders strings by their code units; that is the order
  of \<open>string\<close> here.
\<close>

definition getAvailableSections_body :: "TerragruntDoc list \<Rightarrow> string list" where
  "getAvailableSections_body docs = sort (arrayFromSet (map docSection docs))"

definition getCliCommandHelp_body :: "TerragruntDoc list \<Rightarrow> string \<Rightarrow> TerragruntDoc option" where
  "getCliCommandHelp_body docs command =
     (let cliDocs = filter (\<lambda>doc. docSection doc = ''reference'' \<and>
                                   stringIncludes (url doc) ''/cli/commands/'') docs;
          exactMatch = find (\<lambda>doc.
             toLowerCase (title doc) = toLowerCase command \<or>
             stringIncludes (toLowerCase (url doc)) (''/'' @ toLowerCase command @ ''/'') \<or>
             endsWith (toLowerCase (url doc)) (''/'' @ toLowerCase command)) cliDocs
      in case exactMatch of
           Some doc \<Rightarrow> Some doc
         | None \<Rightarrow>
             find (\<lambda>doc.
               stringIncludes (toLowerCase (title doc)) (toLowerCase command) \<or>
               stringIncludes (toLowerCase (content doc)) (command @ '' '')) cliDocs)"

definition getHclConfigReference_body :: "TerragruntDoc list \<Rightarrow> string \<Rightarrow> TerragruntDoc list" where
  "getHclConfigReference_body docs blockOrAttribute =
     (let query = toLowerCase blockOrAttribute;
          hclDocs = filter (\<lambda>doc. docSection doc = ''reference'' \<and>
             (stringIncludes (url doc) ''/hcl/blocks'' \<or>
              stringIncludes (url doc) ''/hcl/attributes'' \<or>
              stringIncludes (url doc) ''/hcl/functions'' \<or>
              stringIncludes (url doc) ''/config-blocks-and-attributes'')) docs
      in filter (\<lambda>doc. stringIncludes (toLowerCase (title doc)) query \<or>
                       stringIncludes (toLowerCase (content doc)) query) hclDocs)"

section \<open>extractCodeBlocks and getCodeExamples\<close>

text \<open>
  The six regular expressions of \<open>extractCodeBlocks\<close> are sequences of the pieces below.
  A piece takes the text at the current position and returns the text after its match,
  or \<open>None\<close>. In each expression a greedy piece is followed by a character that the
  piece itself cannot match (or by nothing), and the only lazy piece runs to the first
  closing brace, so matching needs no backtracking and \<open>seqMatch\<close> runs the pieces one
  after the other. The flag \<open>i\<close> makes the literals case-insensitive.
\<close>

definition isWordChar :: "char \<Rightarrow> bool" where
  "isWordChar c =
     (c \<in> set (''abcdefghijklmnopqrstuvwxyz'' @ ''ABCDEFGHIJKLMNOPQRSTUVWXYZ'' @
               ''0123456789'' @ ''_''))"

type_synonym piece = "string \<Rightarrow> string option"

fun literal :: "string \<Rightarrow> piece" where
  "literal [] s = Some s"
| "literal (l # ls) [] = None"
| "literal (l # ls) (c # cs) =
     (if toLowerChar c = toLowerChar l then literal ls cs else None)"

definition spaces0 :: piece where
  "spaces0 s = Some (dropWhile isSpace s)"

definition spaces1 :: piece where
  "spaces1 s =
     (case s of [] \<Rightarrow> None
      | c # cs \<Rightarrow> if isSpace c then Some (dropWhile isSpace cs) else None)"

definition word1 :: piece where
  "word1 s =
     (case s of [] \<Rightarrow> None
      | c # cs \<Rightarrow> if isWordChar c then Some (dropWhile isWordChar cs) else None)"

definition restOfLine :: piece where
  "restOfLine s = Some (dropWhile (\<lambda>c. c \<noteq> CHR 0x0A) s)"

definition quoted :: piece where
  "quoted s =
     (case s of [] \<Rightarrow> None
      | c # cs \<Rightarrow>
          if c = CHR 0x22
          then (let label = takeWhile (\<lambda>c. c \<noteq> CHR 0x22) cs;
                    r = dropWhile (\<lambda>c. c \<noteq> CHR 0x22) cs
                in if label \<noteq> [] \<and> r \<noteq> [] then Some (tl r) else None)
          else None)"

definition braces :: piece where
  "braces s =
     (case s of [] \<Rightarrow> None
      | c # cs \<Rightarrow>
          if c = CHR ''{''
          then (let r = dropWhile (\<lambda>c. c \<noteq> CHR ''}'') cs
                in if r \<noteq> [] then Some (tl r) else None)
          else None)"

fun seqMatch :: "piece list \<Rightarrow> piece" where
  "seqMatch [] s = Some s"
| "seqMatch (p # ps) s = (case p s of None \<Rightarrow> None | Some r \<Rightarrow> seqMatch ps r)"

text \<open>
  \<open>content.match(pattern)\<close> with the flag \<open>g\<close>: all matches from left to right, the
  search going on behind each match (\<open>skip\<close> counts the characters of the last match
  still to pass); no match at all gives \<open>null\<close>, which the source treats as no examples.
\<close>

fun matchAll :: "piece \<Rightarrow> nat \<Rightarrow> string \<Rightarrow> string list" where
  "matchAll p skip [] = []"
| "matchAll p (Suc k) (c # cs) = matchAll p k cs"
| "matchAll p 0 (c # cs) =
     (case p (c # cs) of
        None \<Rightarrow> matchAll p 0 cs
      | Some r \<Rightarrow>
          (let n = length (c # cs) - length r
           in take n (c # cs) # matchAll p (n - 1) cs))"

definition codePatterns :: "piece list list" where
  "codePatterns =
     [[literal ''terragrunt'', spaces1, word1, restOfLine],
      [literal ''terraform'', spaces0, braces],
      [literal ''remote_state'', spaces0, braces],
      [literal ''dependency'', spaces0, quoted, spaces0, braces],
      [literal ''include'', spaces0, quoted, spaces0, braces],
      [literal ''inputs'', spaces0, literal ''='', spaces0, braces]]"

definition extractCodeBlocks :: "string \<Rightarrow> string list" where
  "extractCodeBlocks text =
     (let examples =
            foldl (\<lambda>examples pattern.
                     examples @ map trim (matchAll (seqMatch pattern) 0 text))
              [] codePatterns
      in sliceTo 5 (arrayFromSet examples))"

definition getCodeExamples_body ::
  "TerragruntDoc list \<Rightarrow> string \<Rightarrow> (TerragruntDoc \<times> string list) list" where
  "getCodeExamples_body docs topic =
     (let query = toLowerCase topic;
          relevantDocs = filter (\<lambda>doc. stringIncludes (toLowerCase (title doc)) query \<or>
                                       stringIncludes (toLowerCase (content doc)) query) docs
      in foldl (\<lambda>results doc.
                  (let examples = extractCodeBlocks (content doc)
                   in if length examples > 0 then results @ [(doc, examples)] else results))
           [] (sliceTo 10 relevantDocs))"

section \<open>The retrieval operations of TerragruntDocsManager\<close>

text \<open>Each operation first awaits \<open>fetchLatestDocs\<close> and then works on the corpus it got.\<close>

definition searchDocs ::
  "World \<Rightarrow> DocsManager \<Rightarrow> string \<Rightarrow> (error + TerragruntDoc list) \<times> World \<times> DocsManager" where
  "searchDocs w m query =
     (case fetchLatestDocs w m of
        (Inl e, w', m') \<Rightarrow> (Inl e, w', m')
      | (Inr docs, w', m') \<Rightarrow> (Inr (searchDocs_body docs query), w', m'))"

definition getDocBySection ::
  "World \<Rightarrow> DocsManager \<Rightarrow> string \<Rightarrow> (error + TerragruntDoc list) \<times> World \<times> DocsManager" where
  "getDocBySection w m sect =
     (case fetchLatestDocs w m of
        (Inl e, w', m') \<Rightarrow> (Inl e, w', m')
      | (Inr docs, w', m') \<Rightarrow> (Inr (getDocBySection_body docs sect), w', m'))"

definition getAvailableSections ::
  "World \<Rightarrow> DocsManager \<Rightarrow> (error + string list) \<times> World \<times> DocsManager" where
  "getAvailableSections w m =
     (case fetchLatestDocs w m of
        (Inl e, w', m') \<Rightarrow> (Inl e, w', m')
      | (Inr docs, w', m') \<Rightarrow> (Inr (getAvailableSections_body docs), w', m'))"

definition getCliCommandHelp ::
  "World \<Rightarrow> DocsManager \<Rightarrow> string \<Rightarrow> (error + TerragruntDoc option) \<times> World \<times> DocsManager" where
  "getCliCommandHelp w m command =
     (case fetchLatestDocs w m of
        (Inl e, w', m') \<Rightarrow> (Inl e, w', m')
      | (Inr docs, w', m') \<Rightarrow> (Inr (getCliCommandHelp_body docs command), w', m'))"

definition getHclConfigReference ::
  "World \<Rightarrow> DocsManager \<Rightarrow> string \<Rightarrow> (error + TerragruntDoc list) \<times> World \<times> DocsManager" where
  "getHclConfigReference w m blockOrAttribute =
     (case fetchLatestDocs w m of
        (Inl e, w', m') \<Rightarrow> (Inl e, w', m')
      | (Inr docs, w', m') \<Rightarrow>
          (Inr (getHclConfigReference_body docs blockOrAttribute), w', m'))"

definition getCodeExamples ::
  "World \<Rightarrow> DocsManager \<Rightarrow> string \<Rightarrow>
     (error + (TerragruntDoc \<times> string list) list) \<times> World \<times> DocsManager" where
  "getCodeExamples w m topic =
     (case fetchLatestDocs w m of
        (Inl e, w', m') \<Rightarrow> (Inl e, w', m')
      | (Inr docs, w', m') \<Rightarrow> (Inr (getCodeExamples_body docs topic), w', m'))"

section \<open>ToolHandler\<close>

text \<open>
  A \<open>ToolHandler\<close> owns a \<open>ResourceHandler\<close>, whose only state is a documents manager of
  its own (used by \<open>searchDocumentation\<close>), and a second documents manager for the other
  tools. The arguments of a tool call are an optional object whose fields may be absent;
  \<open>limit\<close> is an integer when present.
\<close>

record ToolHandler =
  resourceHandler :: DocsManager
  docsManager :: DocsManager

record ToolArgs =
  argQuery :: "string option"
  argSection :: "string option"
  argCommand :: "string option"
  argConfig :: "string option"
  argTopic :: "string option"
  argLimit :: "int option"

record SearchHit =
  hitTitle :: string
  hitUrl :: string
  hitSection :: string
  snippet :: string
  hitLastUpdated :: "jsdate option"

record SectionInfo =
  sectionName :: string
  docCount :: nat

record DocSummary =
  sumTitle :: string
  sumUrl :: string
  sumContent :: string
  sumLastUpdated :: "jsdate option"

record ExampleEntry =
  documentTitle :: string
  documentUrl :: string
  exampleSection :: string
  codeSnippets :: "string list"
  snippetCount :: nat

text \<open>The objects that the tools return, one constructor for each shape.\<close>

datatype toolResult =
    ErrorResult string
  | SearchResults string "SearchHit list" nat bool
  | Sections "SectionInfo list" nat nat
  | SectionNotFound string string "string list"
  | SectionDocs string "DocSummary list" nat
  | CommandNotFound string string string
  | CommandHelp string string string string "jsdate option"
  | ConfigNotFound string string string
  | ConfigReference string "DocSummary list" nat
  | ExamplesNotFound string string string
  | CodeExamples string "ExampleEntry list" nat bool

text \<open>\<open>s.length > n ? s.substring(0, n) + '...' : s\<close>\<close>

definition shorten :: "nat \<Rightarrow> string \<Rightarrow> string" where
  "shorten n s = (if length s > n then take n s @ ''...'' else s)"

text \<open>The objects built inside the \<open>map\<close> calls of the tools.\<close>

definition searchHit :: "TerragruntDoc \<Rightarrow> SearchHit" where
  "searchHit doc =
     \<lparr>hitTitle = title doc, hitUrl = url doc, hitSection = docSection doc,
      snippet = shorten 300 (content doc), hitLastUpdated = lastUpdated doc\<rparr>"

definition docSummary :: "nat \<Rightarrow> TerragruntDoc \<Rightarrow> DocSummary" where
  "docSummary n doc =
     \<lparr>sumTitle = title doc, sumUrl = url doc, sumContent = shorten n (content doc),
      sumLastUpdated = lastUpdated doc\<rparr>"

definition exampleEntry :: "TerragruntDoc \<times> string list \<Rightarrow> ExampleEntry" where
  "exampleEntry result =
     (case result of (doc, examples) \<Rightarrow>
        \<lparr>documentTitle = title doc, documentUrl = url doc, exampleSection = docSection doc,
         codeSnippets = examples, snippetCount = length examples\<rparr>)"

definition searchDocumentation ::
  "World \<Rightarrow> DocsManager \<Rightarrow> string \<Rightarrow> (error + TerragruntDoc list) \<times> World \<times> DocsManager" where
  "searchDocumentation w rm query = searchDocs w rm query"

definition searchTerragruntDocs ::
  "World \<Rightarrow> ToolHandler \<Rightarrow> string \<Rightarrow> int option \<Rightarrow> (error + toolResult) \<times> World \<times> ToolHandler" where
  "searchTerragruntDocs w h query limitArg =
     (let limit = (case limitArg of None \<Rightarrow> 5 | Some l \<Rightarrow> l)
      in case searchDocumentation w (resourceHandler h) query of
           (Inl e, w', rm) \<Rightarrow> (Inl e, w', h\<lparr>resourceHandler := rm\<rparr>)
         | (Inr results, w', rm) \<Rightarrow>
             (Inr (SearchResults query
                     (map searchHit (sliceTo limit results))
                     (length results)
                     (int (length results) > limit)),
              w', h\<lparr>resourceHandler := rm\<rparr>))"

definition getTerragruntSections ::
  "World \<Rightarrow> ToolHandler \<Rightarrow> (error + toolResult) \<times> World \<times> ToolHandler" where
  "getTerragruntSections w h =
     (case getAvailableSections w (docsManager h) of
        (Inl e, w1, m1) \<Rightarrow> (Inl e, w1, h\<lparr>docsManager := m1\<rparr>)
      | (Inr sections, w1, m1) \<Rightarrow>
          (case fetchLatestDocs w1 m1 of
             (Inl e, w2, m2) \<Rightarrow> (Inl e, w2, h\<lparr>docsManager := m2\<rparr>)
           | (Inr docs, w2, m2) \<Rightarrow>
               (Inr (Sections
                       (map (\<lambda>sect. \<lparr>sectionName = sect,
                                      docCount = length (filter (\<lambda>doc. docSection doc = sect) docs)\<rparr>)
                          sections)
                       (length sections) (length docs)),
                w2, h\<lparr>docsManager := m2\<rparr>)))"

definition getSectionDocs ::
  "World \<Rightarrow> ToolHandler \<Rightarrow> string \<Rightarrow> (error + toolResult) \<times> World \<times> ToolHandler" where
  "getSectionDocs w h sect =
     (case getDocBySection w (docsManager h) sect of
        (Inl e, w1, m1) \<Rightarrow> (Inl e, w1, h\<lparr>docsManager := m1\<rparr>)
      | (Inr docs, w1, m1) \<Rightarrow>
          if length docs = 0
          then (case getAvailableSections w1 m1 of
                  (Inl e, w2, m2) \<Rightarrow> (Inl e, w2, h\<lparr>docsManager := m2\<rparr>)
                | (Inr sections, w2, m2) \<Rightarrow>
                    (Inr (SectionNotFound sect
                            (''No documentation found for section: '' @ sect) sections),
                     w2, h\<lparr>docsManager := m2\<rparr>))
          else (Inr (SectionDocs sect
                       (map (docSummary 500) docs)
                       (length docs)),
                w1, h\<lparr>docsManager := m1\<rparr>))"

definition getCliCommandHelp_tool ::
  "World \<Rightarrow> ToolHandler \<Rightarrow> string \<Rightarrow> (error + toolResult) \<times> World \<times> ToolHandler" where
  "getCliCommandHelp_tool w h command =
     (case getCliCommandHelp w (docsManager h) command of
        (Inl e, w1, m1) \<Rightarrow> (Inl e, w1, h\<lparr>docsManager := m1\<rparr>)
      | (Inr None, w1, m1) \<Rightarrow>
          (Inr (CommandNotFound command
                  (''No CLI command documentation found for: '' @ command)
                  (''Try searching with search_terragrunt_docs or use get_section_docs with ''
                   @ ''section \"reference\" to see all available CLI commands'')),
           w1, h\<lparr>docsManager := m1\<rparr>)
      | (Inr (Some doc), w1, m1) \<Rightarrow>
          (Inr (CommandHelp command (title doc) (url doc) (content doc) (lastUpdated doc)),
           w1, h\<lparr>docsManager := m1\<rparr>))"

definition getHclConfigReference_tool ::
  "World \<Rightarrow> ToolHandler \<Rightarrow> string \<Rightarrow> (error + toolResult) \<times> World \<times> ToolHandler" where
  "getHclConfigReference_tool w h config =
     (case getHclConfigReference w (docsManager h) config of
        (Inl e, w1, m1) \<Rightarrow> (Inl e, w1, h\<lparr>docsManager := m1\<rparr>)
      | (Inr docs, w1, m1) \<Rightarrow>
          if length docs = 0
          then (Inr (ConfigNotFound config
                       (''No HCL configuration documentation found for: '' @ config)
                       (''Try searching with search_terragrunt_docs or use get_section_docs ''
                        @ ''with section \"reference\" to see all available HCL configurations'')),
                w1, h\<lparr>docsManager := m1\<rparr>)
          else (Inr (ConfigReference config
                       (map (docSummary 800) docs)
                       (length docs)),
                w1, h\<lparr>docsManager := m1\<rparr>))"

definition getCodeExamples_tool ::
  "World \<Rightarrow> ToolHandler \<Rightarrow> string \<Rightarrow> int option \<Rightarrow> (error + toolResult) \<times> World \<times> ToolHandler" where
  "getCodeExamples_tool w h topic limitArg =
     (let limit = (case limitArg of None \<Rightarrow> 5 | Some l \<Rightarrow> l)
      in case getCodeExamples w (docsManager h) topic of
           (Inl e, w1, m1) \<Rightarrow> (Inl e, w1, h\<lparr>docsManager := m1\<rparr>)
         | (Inr results, w1, m1) \<Rightarrow>
             if length results = 0
             then (Inr (ExamplesNotFound topic
                          (''No code examples found for: '' @ topic)
                          (''Try a broader search term or use search_terragrunt_docs to find ''
                           @ ''relevant documentation'')),
                   w1, h\<lparr>docsManager := m1\<rparr>)
             else (Inr (CodeExamples topic
                          (map exampleEntry (sliceTo limit results))
                          (length results)
                          (int (length results) > limit)),
                   w1, h\<lparr>docsManager := m1\<rparr>))"

text \<open>
  \<open>executeTool\<close>. \<open>!args?.query\<close> holds when the arguments, or the field, are absent and
  when the field is the empty string (\<open>missing\<close>). The \<open>catch\<close> of \<open>executeTool\<close> turns a
  thrown error into an error object.
\<close>

definition missing :: "ToolArgs option \<Rightarrow> (ToolArgs \<Rightarrow> string option) \<Rightarrow> bool" where
  "missing args field =
     (case args of None \<Rightarrow> True
      | Some a \<Rightarrow> (case field a of None \<Rightarrow> True | Some v \<Rightarrow> v = []))"

definition given :: "ToolArgs option \<Rightarrow> (ToolArgs \<Rightarrow> string option) \<Rightarrow> string" where
  "given args field =
     (case args of None \<Rightarrow> []
      | Some a \<Rightarrow> (case field a of None \<Rightarrow> [] | Some v \<Rightarrow> v))"

definition limitOf :: "ToolArgs option \<Rightarrow> int option" where
  "limitOf args = (case args of None \<Rightarrow> None | Some a \<Rightarrow> argLimit a)"

definition executeTool_try ::
  "World \<Rightarrow> ToolHandler \<Rightarrow> string \<Rightarrow> ToolArgs option \<Rightarrow>
     (error + toolResult) \<times> World \<times> ToolHandler" where
  "executeTool_try w h name args =
     (if name = ''search_terragrunt_docs'' then
        (if missing args argQuery then (Inr (ErrorResult ''query parameter is required''), w, h)
         else searchTerragruntDocs w h (given args argQuery) (limitOf args))
      else if name = ''get_terragrunt_sections'' then getTerragruntSections w h
      else if name = ''get_section_docs'' then
        (if missing args argSection
         then (Inr (ErrorResult ''section parameter is required''), w, h)
         else getSectionDocs w h (given args argSection))
      else if name = ''get_cli_command_help'' then
        (if missing args argCommand
         then (Inr (ErrorResult ''command parameter is required''), w, h)
         else getCliCommandHelp_tool w h (given args argCommand))
      else if name = ''get_hcl_config_reference'' then
        (if missing args argConfig
         then (Inr (ErrorResult ''config parameter is required''), w, h)
         else getHclConfigReference_tool w h (given args argConfig))
      else if name = ''get_code_examples'' then
        (if missing args argTopic then (Inr (ErrorResult ''topic parameter is required''), w, h)
         else getCodeExamples_tool w h (given args argTopic) (limitOf args))
      else (Inr (ErrorResult (''Unknown tool: '' @ name)), w, h))"

definition executeTool ::
  "World \<Rightarrow> ToolHandler \<Rightarrow> string \<Rightarrow> ToolArgs option \<Rightarrow> toolResult \<times> World \<times> ToolHandler" where
  "executeTool w h name args =
     (case executeTool_try w h name args of
        (Inl (Error message), w', h') \<Rightarrow> (ErrorResult message, w', h')
      | (Inr result, w', h') \<Rightarrow> (result, w', h'))"


section \<open>The passes of getCliCommandHelp, named\<close>








text \<open>The test of \<open>getCodeExamples\<close>: the folded title or content contains the folded topic.\<close>

definition topicHit :: "string \<Rightarrow> TerragruntDoc \<Rightarrow> bool" where
  "topicHit topic d = (titleHit topic d \<or> contentHit topic d)"

section \<open>The words of the statements\<close>


text \<open>
  Containment ignoring case, said without \<open>toLowerCase\<close>: two characters are the same
  letter when they are equal or are the upper-case and the lower-case form of one of the
  letters \<open>A\<close> to \<open>Z\<close>; a string starts with a prefix ignoring case when the prefix
  agrees with its beginning letter by letter; it contains a string ignoring case when
  what is left of it from some position on starts with that string ignoring case.
\<close>

definition letterPairs :: "(char \<times> char) list" where
  "letterPairs = zip ''ABCDEFGHIJKLMNOPQRSTUVWXYZ'' ''abcdefghijklmnopqrstuvwxyz''"

definition sameLetter :: "char \<Rightarrow> char \<Rightarrow> bool" where
  "sameLetter c d = (c = d \<or> (c, d) \<in> set letterPairs \<or> (d, c) \<in> set letterPairs)"

fun startsWithIgnoringCase :: "string \<Rightarrow> string \<Rightarrow> bool" where
  "startsWithIgnoringCase s [] = True"
| "startsWithIgnoringCase [] (p # ps) = False"
| "startsWithIgnoringCase (c # cs) (p # ps) = (sameLetter c p \<and> startsWithIgnoringCase cs ps)"

fun includesIgnoringCase :: "string \<Rightarrow> string \<Rightarrow> bool" where
  "includesIgnoringCase [] sub = (sub = [])"
| "includesIgnoringCase (c # cs) sub =
     (startsWithIgnoringCase (c # cs) sub \<or> includesIgnoringCase cs sub)"

text \<open>The words with which the six regular expressions of \<open>extractCodeBlocks\<close> begin.\<close>

definition snippetKeywords :: "string list" where
  "snippetKeywords =
     [''terragrunt'', ''terraform'', ''remote_state'', ''dependency'', ''include'', ''inputs'']"

section \<open>Example inputs\<close>

definition docQuickStart :: TerragruntDoc where
  "docQuickStart =
     \<lparr>title = ''Quick Start'', url = ''https://example.com/quick-start'',
      content = ''Getting started with a dependency graph'',
      docSection = ''getting-started'', lastUpdated = None\<rparr>"

definition docDependency :: TerragruntDoc where
  "docDependency =
     \<lparr>title = ''Dependency Management'', url = ''https://example.com/dependencies'',
      content = ''How to manage modules'',
      docSection = ''features'', lastUpdated = None\<rparr>"

text \<open>
  The manager as its constructor leaves it, a network on which every request fails, and
  a world whose disk snapshot of two documents was written 25 hours ago.
\<close>

definition newManager :: DocsManager where
  "newManager = \<lparr>docsCache = [], lastFetchTime = None\<rparr>"

definition offline :: "nat \<Rightarrow> string \<Rightarrow> response" where
  "offline n u = NetworkError"

definition hours :: "int \<Rightarrow> int" where
  "hours n = n * 60 * 60 * 1000"

definition staleSnapshotWorld :: World where
  "staleSnapshotWorld =
     \<lparr>now = hours 100,
      cacheFile = Parsed (DocArray [Some docQuickStart, Some docDependency]),
      metadataFile = Parsed \<lparr>metaLastFetchTime = ValidDate (hours 75), docsCount = 2\<rparr>,
      cacheFileWritable = True, metadataFileWritable = True,
      net = offline, requests = []\<rparr>"







text \<open>
  A world with nothing on disk whose server answers every request with a response
  that is not \<open>ok\<close> (an error page without links or text).
\<close>

definition errorPage :: html where
  "errorPage = \<lparr>navLinks = [], contentLinks = [], containerText = None, bodyText = []\<rparr>"

definition serverError :: "nat \<Rightarrow> string \<Rightarrow> response" where
  "serverError n u = Response False errorPage"

definition serverErrorWorld :: World where
  "serverErrorWorld =
     \<lparr>now = hours 100, cacheFile = Missing, metadataFile = Missing,
      cacheFileWritable = True, metadataFileWritable = True,
      net = serverError, requests = []\<rparr>"



text \<open>
  A world whose server works, with an index of one link and pages that have a content
  container, and whose disk cache is unreadable and cannot be written; and the corpus
  that a refresh builds there: the linked page and the four core pages.
\<close>

definition indexPage :: html where
  "indexPage =
     \<lparr>navLinks = [(''/docs/features/units/'', '' Units '')], contentLinks = [],
      containerText = None, bodyText = []\<rparr>"

definition contentPage :: html where
  "contentPage =
     \<lparr>navLinks = [], contentLinks = [],
      containerText = Some ''  terraform {  source = 1 }  '', bodyText = ''body''\<rparr>"

definition online :: "nat \<Rightarrow> string \<Rightarrow> response" where
  "online n u = Response True (if u = baseUrl @ ''/docs/'' then indexPage else contentPage)"

definition readOnlyDiskWorld :: World where
  "readOnlyDiskWorld =
     \<lparr>now = hours 100, cacheFile = Corrupt, metadataFile = Corrupt,
      cacheFileWritable = False, metadataFileWritable = False,
      net = online, requests = []\<rparr>"

definition freshPages :: "page list" where
  "freshPages =
     \<lparr>pageUrl = baseUrl @ ''/docs/features/units/'', pageTitle = ''Units'',
      pageSection = ''features''\<rparr> # coreDocs"

definition freshDocs :: "TerragruntDoc list" where
  "freshDocs =
     map (\<lambda>p. \<lparr>title = pageTitle p, url = pageUrl p, content = ''terraform { source = 1 }'',
                docSection = pageSection p, lastUpdated = Some (ValidDate (hours 100))\<rparr>)
       freshPages"

definition refreshedManager :: DocsManager where
  "refreshedManager =
     \<lparr>docsCache = map (\<lambda>d. (url d, d)) freshDocs,
      lastFetchTime = Some (ValidDate (hours 100))\<rparr>"

text \<open>
  A manager whose corpus of two documents is 50 hours old, and a server like \<open>online\<close>
  that serves the index only to the first request and fails on every later request for
  it. \<open>suspendedWorld\<close> and \<open>suspendedManager\<close> are world and manager when a refresh
  started there has stored one page; \<open>readerWorld\<close> is the world after one more
  request for the index.
\<close>

definition oldManager :: DocsManager where
  "oldManager =
     \<lparr>docsCache = [(url docQuickStart, docQuickStart), (url docDependency, docDependency)],
      lastFetchTime = Some (ValidDate (hours 50))\<rparr>"

definition flaky :: "nat \<Rightarrow> string \<Rightarrow> response" where
  "flaky n u = (if u = baseUrl @ ''/docs/'' \<and> 0 < n then NetworkError else online n u)"

definition flakyWorld :: World where
  "flakyWorld = readOnlyDiskWorld\<lparr>net := flaky\<rparr>"

definition suspendedWorld :: World where
  "suspendedWorld =
     flakyWorld\<lparr>requests := [baseUrl @ ''/docs/'', baseUrl @ ''/docs/features/units/'']\<rparr>"

definition suspendedManager :: DocsManager where
  "suspendedManager = oldManager\<lparr>docsCache := [(url (hd freshDocs), hd freshDocs)]\<rparr>"

definition readerWorld :: World where
  "readerWorld = suspendedWorld\<lparr>requests := requests suspendedWorld @ [baseUrl @ ''/docs/'']\<rparr>"

text \<open>
  Twenty documents on dependencies, each with a \<open>dependency\<close> block and an \<open>inputs\<close>
  block in its content.
\<close>

definition exampleContent :: string where
  "exampleContent = ''dependency \"test\" { config_path = \"../test\" } inputs = { a = 1 }''"

definition exampleDoc :: "char \<Rightarrow> TerragruntDoc" where
  "exampleDoc c =
     \<lparr>title = ''Doc '' @ [c], url = ''https://example.com/'' @ [c],
      content = exampleContent, docSection = ''features'', lastUpdated = None\<rparr>"

definition twentyDocs :: "TerragruntDoc list" where
  "twentyDocs = map exampleDoc ''abcdefghijklmnopqrst''"

text \<open>
  A document with seven blocks of six kinds, one of them twice and one with its keyword
  in mixed case; a document that names the topic in upper case and has no block; a
  document with a block that does not name the topic; and the corpus of these three
  followed by the twenty.
\<close>

definition snippetDoc :: TerragruntDoc where
  "snippetDoc =
     \<lparr>title = ''Dependency Blocks'', url = ''https://example.com/blocks'',
      content = ''terragrunt plan --all'' @ [CHR 0x0A] @
                ''terraform { source = \"x\" } Remote_State { backend = \"s3\" } '' @
                ''dependency \"vpc\" { config_path = \"../vpc\" } '' @
                ''include \"root\" { path = \"p\" } inputs = { a = 1 } '' @
                ''terraform { source = \"x\" }'',
      docSection = ''features'', lastUpdated = None\<rparr>"

definition noSnippetDoc :: TerragruntDoc where
  "noSnippetDoc =
     \<lparr>title = ''Overview'', url = ''https://example.com/overview'',
      content = ''The DEPENDENCY graph decides the order of a run'',
      docSection = ''features'', lastUpdated = None\<rparr>"

definition otherDoc :: TerragruntDoc where
  "otherDoc =
     \<lparr>title = ''Inputs'', url = ''https://example.com/inputs'',
      content = ''inputs = { region = \"eu\" }'',
      docSection = ''features'', lastUpdated = None\<rparr>"

definition mixedCorpus :: "TerragruntDoc list" where
  "mixedCorpus = [snippetDoc, noSnippetDoc, otherDoc] @ twentyDocs"

text \<open>
  A manager whose cache holds two documents fetched an hour before the clock of
  \<open>staleSnapshotWorld\<close>, a handler around it, and tool arguments with an empty query.
\<close>

definition warmManager :: DocsManager where
  "warmManager =
     \<lparr>docsCache = [(url docQuickStart, docQuickStart), (url docDependency, docDependency)],
      lastFetchTime = Some (ValidDate (hours 99))\<rparr>"

definition warmHandler :: ToolHandler where
  "warmHandler = \<lparr>resourceHandler = warmManager, docsManager = newManager\<rparr>"

definition emptyQueryArgs :: ToolArgs where
  "emptyQueryArgs =
     \<lparr>argQuery = Some [], argSection = None, argCommand = None, argConfig = None,
      argTopic = None, argLimit = Some 5\<rparr>"

section \<open>Facts about strings\<close>

lemma startsWith_iff: "startsWith s p \<longleftrightarrow> (\<exists>r. s = p @ r)"
  by (induction s p rule: startsWith.induct) auto

lemma stringIncludes_iff: "stringIncludes s sub \<longleftrightarrow> (\<exists>p r. s = p @ sub @ r)"
proof (induction s)
  case Nil
  then show ?case by auto
next
  case (Cons c cs)
  show ?case
  proof
    assume "stringIncludes (c # cs) sub"
    then consider "startsWith (c # cs) sub" | "stringIncludes cs sub" by auto
    then show "\<exists>p r. c # cs = p @ sub @ r"
    proof cases
      case 1
      then obtain r where "c # cs = sub @ r" by (auto simp: startsWith_iff)
      then have "c # cs = [] @ sub @ r" by simp
      then show ?thesis by blast
    next
      case 2
      then obtain p r where "cs = p @ sub @ r" using Cons.IH by blast
      then have "c # cs = (c # p) @ sub @ r" by simp
      then show ?thesis by blast
    qed
  next
    assume "\<exists>p r. c # cs = p @ sub @ r"
    then obtain p r where e: "c # cs = p @ sub @ r" by blast
    show "stringIncludes (c # cs) sub"
    proof (cases p)
      case Nil
      with e have "startsWith (c # cs) sub" by (auto simp: startsWith_iff)
      then show ?thesis by simp
    next
      case (Cons a p')
      with e have "cs = p' @ sub @ r" by simp
      then have "stringIncludes cs sub" using Cons.IH by blast
      then show ?thesis by simp
    qed
  qed
qed

lemma stringIncludes_Nil [simp]: "stringIncludes s []"
  by (cases s) auto

lemma endsWith_iff: "endsWith s suffix \<longleftrightarrow> (\<exists>p. s = p @ suffix)"
proof -
  have "(\<exists>r. rev s = rev suffix @ r) \<longleftrightarrow> (\<exists>p. s = p @ suffix)"
  proof
    assume "\<exists>r. rev s = rev suffix @ r"
    then obtain r where "rev s = rev suffix @ r" by blast
    then have "rev (rev s) = rev (rev suffix @ r)" by simp
    then have "s = rev r @ suffix" by simp
    then show "\<exists>p. s = p @ suffix" by blast
  next
    assume "\<exists>p. s = p @ suffix"
    then obtain p where "s = p @ suffix" by blast
    then have "rev s = rev suffix @ rev p" by simp
    then show "\<exists>r. rev s = rev suffix @ r" by blast
  qed
  then show ?thesis by (simp add: endsWith_def startsWith_iff)
qed

lemma toLowerCase_Nil [simp]: "toLowerCase [] = []"
  by (simp add: toLowerCase_def)

text \<open>
  \<open>toLowerChar\<close> identifies exactly the characters that are the same letter, so
  containment of the folded strings is containment ignoring case; and that is: some
  stretch of the string agrees with the other string letter by letter.
\<close>

lemma table_fold:
  assumes "distinct (map fst t)" "distinct (map snd t)" "fst ` set t \<inter> snd ` set t = {}"
  shows "((case map_of t c of None \<Rightarrow> c | Some l \<Rightarrow> l) =
          (case map_of t d of None \<Rightarrow> d | Some l \<Rightarrow> l)) \<longleftrightarrow>
         (c = d \<or> (c, d) \<in> set t \<or> (d, c) \<in> set t)"
proof (cases "map_of t c")
  case None
  then have c: "c \<notin> fst ` set t"
    by (simp add: map_of_eq_None_iff)
  show ?thesis
  proof (cases "map_of t d")
    case N: None
    then have "d \<notin> fst ` set t"
      by (simp add: map_of_eq_None_iff)
    with c None N show ?thesis
      by force
  next
    case (Some l)
    then have dl: "(d, l) \<in> set t"
      by (rule map_of_SomeD)
    then have "l \<in> snd ` set t" "d \<in> fst ` set t"
      by force+
    with assms(3) c have "l \<noteq> d" "c \<noteq> d"
      by auto
    moreover have "(d, c) \<in> set t \<longleftrightarrow> c = l"
      using dl assms(1) by (metis Some map_of_is_SomeI option.inject)
    moreover have "(c, d) \<notin> set t"
      using c by force
    ultimately show ?thesis
      using None Some by auto
  qed
next
  case (Some k)
  then have ck: "(c, k) \<in> set t"
    by (rule map_of_SomeD)
  then have k: "k \<in> snd ` set t" and c: "c \<in> fst ` set t"
    by force+
  show ?thesis
  proof (cases "map_of t d")
    case None
    then have d: "d \<notin> fst ` set t"
      by (simp add: map_of_eq_None_iff)
    have "(c, d) \<in> set t \<longleftrightarrow> k = d"
      using ck assms(1) by (metis Some map_of_is_SomeI option.inject)
    moreover have "(d, c) \<notin> set t"
      using d by force
    moreover have "c \<noteq> d"
      using c d by auto
    ultimately show ?thesis
      using None Some by auto
  next
    case S: (Some l)
    then have dl: "(d, l) \<in> set t"
      by (rule map_of_SomeD)
    then have d: "d \<in> fst ` set t"
      by force
    have "(c, d) \<notin> set t"
      using d assms(3) by force
    moreover have "(d, c) \<notin> set t"
      using c assms(3) by force
    moreover have "k = l \<longleftrightarrow> c = d"
    proof
      assume "k = l"
      with ck dl assms(2) show "c = d"
        by (metis (no_types, lifting) distinct_map inj_onD snd_conv prod.inject)
    next
      assume "c = d"
      with Some S show "k = l"
        by simp
    qed
    ultimately show ?thesis
      using Some S by auto
  qed
qed

lemma letterPairs_table:
  "distinct (map fst letterPairs)" "distinct (map snd letterPairs)"
  "fst ` set letterPairs \<inter> snd ` set letterPairs = {}"
  by (simp_all add: letterPairs_def)

lemma toLowerChar_sameLetter: "(toLowerChar c = toLowerChar d) = sameLetter c d"
  unfolding toLowerChar_def sameLetter_def letterPairs_def [symmetric]
  by (rule table_fold) (rule letterPairs_table)+

lemma startsWith_toLowerCase:
  "startsWith (toLowerCase s) (toLowerCase t) = startsWithIgnoringCase s t"
  by (induction s t rule: startsWithIgnoringCase.induct)
    (simp_all add: toLowerCase_def toLowerChar_sameLetter)

lemma stringIncludes_toLowerCase:
  "stringIncludes (toLowerCase s) (toLowerCase t) = includesIgnoringCase s t"
proof (induction s)
  case Nil
  show ?case
    by (simp add: toLowerCase_def)
next
  case (Cons c cs)
  have "startsWith (toLowerChar c # toLowerCase cs) (toLowerCase t) =
          startsWithIgnoringCase (c # cs) t"
    using startsWith_toLowerCase [of "c # cs" t] by (simp add: toLowerCase_def)
  with Cons show ?case
    by (simp add: toLowerCase_def)
qed

lemma startsWithIgnoringCase_iff:
  "startsWithIgnoringCase s t \<longleftrightarrow> (\<exists>m q. s = m @ q \<and> list_all2 sameLetter m t)"
proof (induction s t rule: startsWithIgnoringCase.induct)
  case (1 s)
  show ?case by simp
next
  case (2 p ps)
  show ?case by simp
next
  case (3 c cs p ps)
  show ?case
  proof
    assume "startsWithIgnoringCase (c # cs) (p # ps)"
    with 3 obtain m q where "sameLetter c p" "cs = m @ q" "list_all2 sameLetter m ps"
      by auto
    then have "c # cs = (c # m) @ q \<and> list_all2 sameLetter (c # m) (p # ps)"
      by simp
    then show "\<exists>m q. c # cs = m @ q \<and> list_all2 sameLetter m (p # ps)"
      by blast
  next
    assume "\<exists>m q. c # cs = m @ q \<and> list_all2 sameLetter m (p # ps)"
    then obtain m q where m: "c # cs = m @ q" "list_all2 sameLetter m (p # ps)"
      by blast
    then obtain m' where "m = c # m'" "sameLetter c p" "list_all2 sameLetter m' ps" "cs = m' @ q"
      by (cases m) auto
    with 3 show "startsWithIgnoringCase (c # cs) (p # ps)"
      by auto
  qed
qed

lemma includesIgnoringCase_iff:
  "includesIgnoringCase s t \<longleftrightarrow> (\<exists>p m q. s = p @ m @ q \<and> list_all2 sameLetter m t)"
proof (induction s)
  case Nil
  show ?case by auto
next
  case (Cons c cs)
  show ?case
  proof
    assume "includesIgnoringCase (c # cs) t"
    then consider "startsWithIgnoringCase (c # cs) t" | "includesIgnoringCase cs t"
      by auto
    then show "\<exists>p m q. c # cs = p @ m @ q \<and> list_all2 sameLetter m t"
    proof cases
      case 1
      then obtain m q where "c # cs = [] @ m @ q \<and> list_all2 sameLetter m t"
        by (auto simp: startsWithIgnoringCase_iff)
      then show ?thesis by blast
    next
      case 2
      with Cons obtain p m q where "cs = p @ m @ q" "list_all2 sameLetter m t"
        by blast
      then have "c # cs = (c # p) @ m @ q \<and> list_all2 sameLetter m t"
        by simp
      then show ?thesis by blast
    qed
  next
    assume "\<exists>p m q. c # cs = p @ m @ q \<and> list_all2 sameLetter m t"
    then obtain p m q where pm: "c # cs = p @ m @ q" "list_all2 sameLetter m t"
      by blast
    show "includesIgnoringCase (c # cs) t"
    proof (cases p)
      case Nil
      with pm have "startsWithIgnoringCase (c # cs) t"
        by (auto simp: startsWithIgnoringCase_iff)
      then show ?thesis by simp
    next
      case (Cons a p')
      with pm have "cs = p' @ m @ q"
        by simp
      with pm(2) have "includesIgnoringCase cs t"
        using Cons.IH by blast
      then show ?thesis by simp
    qed
  qed
qed

section \<open>Facts about the sort\<close>

lemma insertSorted_insort_key:
  assumes "\<And>a b. cmp a b \<le> 0 \<longleftrightarrow> f a \<le> f b"
  shows "insertSorted cmp x ys = insort_key f x ys"
  by (induction ys) (simp_all add: assms)

lemma arraySort_sort_key:
  assumes "\<And>a b. cmp a b \<le> 0 \<longleftrightarrow> f a \<le> f b"
  shows "arraySort cmp xs = sort_key (f :: 'a \<Rightarrow> nat) xs"
proof -
  have "insertSorted cmp = insort_key f"
    by (intro ext) (rule insertSorted_insort_key, rule assms)
  then show ?thesis by (simp add: arraySort_def sort_key_def)
qed

lemma compareDocs_rank:
  "compareDocs (toLowerCase query) a b \<le> 0 \<longleftrightarrow> rank query a \<le> rank query b"
  by (simp add: compareDocs_def rank_def titleHit_def sectionHit_def Let_def)

lemma searchDocs_body_sort_key:
  "searchDocs_body docs query = sort_key (rank query) (filter (docMatches query) docs)"
proof -
  have "arraySort (compareDocs (toLowerCase query)) xs = sort_key (rank query) xs" for xs
    by (rule arraySort_sort_key) (rule compareDocs_rank)
  moreover have "docMatches query =
      (\<lambda>doc. stringIncludes (toLowerCase (title doc)) (toLowerCase query) \<or>
             stringIncludes (toLowerCase (content doc)) (toLowerCase query) \<or>
             stringIncludes (toLowerCase (docSection doc)) (toLowerCase query))"
    by (intro ext) (simp add: docMatches_def titleHit_def contentHit_def sectionHit_def)
  ultimately show ?thesis
    by (simp add: searchDocs_body_def Let_def)
qed

section \<open>The cache engine never throws\<close>

lemma loadCacheFromDisk_returns: "\<exists>loaded m'. loadCacheFromDisk w m = (Inr loaded, m')"
  by (auto simp add: loadCacheFromDisk_def split: prod.split sum.split)

lemma saveCacheToDisk_returns: "\<exists>w'. saveCacheToDisk w m = (Inr (), w')"
  by (simp add: saveCacheToDisk_def split: prod.split sum.split)

lemma fetchDocumentPage_returns: "\<exists>doc w'. fetchDocumentPage w pg = (Inr doc, w')"
  by (simp add: fetchDocumentPage_def split: prod.split sum.split)

lemma fetchPages_returns: "\<exists>w' c'. fetchPages pages w c = (Inr (), w', c')"
proof (induction pages arbitrary: w c)
  case Nil
  then show ?case by simp
next
  case (Cons pg pages)
  obtain doc w' where f: "fetchDocumentPage w pg = (Inr doc, w')"
    using fetchDocumentPage_returns by blast
  show ?case
  proof (cases doc)
    case None
    with f Cons.IH [of w' c] show ?thesis by simp
  next
    case (Some d)
    with f Cons.IH [of w' "mapSet (url d) d c"] show ?thesis by simp
  qed
qed

lemma refreshDocsCache_returns: "\<exists>w' m'. refreshDocsCache w m = (Inr (), w', m')"
  by (simp add: refreshDocsCache_def split: prod.split sum.split)

lemma fetchLatestDocs_refresh_result:
  "\<exists>w' m'. fetchLatestDocs_refresh w m = (Inr (mapValues (docsCache m')), w', m')"
proof (cases "shouldRefreshCache w m")
  case True
  obtain w' m' where "refreshDocsCache w m = (Inr (), w', m')"
    using refreshDocsCache_returns by blast
  with True show ?thesis by (simp add: fetchLatestDocs_refresh_def)
next
  case False
  then show ?thesis by (simp add: fetchLatestDocs_refresh_def)
qed

lemma fetchLatestDocs_result:
  "\<exists>w' m'. fetchLatestDocs w m = (Inr (mapValues (docsCache m')), w', m')"
proof (cases "length (docsCache m) = 0")
  case True
  obtain loaded m1 where l: "loadCacheFromDisk w m = (Inr loaded, m1)"
    using loadCacheFromDisk_returns by blast
  show ?thesis
  proof (cases "loaded \<and> \<not> shouldRefreshCache w m1")
    case True
    with l \<open>length (docsCache m) = 0\<close> show ?thesis by (simp add: fetchLatestDocs_def)
  next
    case False
    with l \<open>length (docsCache m) = 0\<close> fetchLatestDocs_refresh_result [of w m1]
    show ?thesis by (auto simp add: fetchLatestDocs_def)
  qed
next
  case False
  with fetchLatestDocs_refresh_result [of w m] show ?thesis
    by (simp add: fetchLatestDocs_def)
qed

lemma fetchLatestDocs_returns: "\<exists>docs w' m'. fetchLatestDocs w m = (Inr docs, w', m')"
  using fetchLatestDocs_result [of w m] by blast

lemmas engine_defs =
  fetchLatestDocs_def fetchLatestDocs_refresh_def loadCacheFromDisk_def
  loadCacheFromDisk_try_def fileExists_def olderThanExpiry_def cacheExpiry_def
  shouldRefreshCache_def refreshDocsCache_def refreshDocsCache_try_def
  getDocumentationPages_def fetch_def mapValues_def saveCacheToDisk_def
  saveCacheToDisk_try_def fetchDocumentPage_def fetchDocumentPage_try_def

lemma pieces_of_the_example:
  "trim ''  terraform {  source = 1 }  '' = ''terraform {  source = 1 }''"
  "cleanContent ''terraform {  source = 1 }'' = ''terraform { source = 1 }''"
  "trim '' Units '' = ''Units''"
  "extractSection ''/docs/features/units/'' = ''features''"
  by code_simp+

lemma fetchLatestDocs_readOnlyDiskWorld:
  "fetchLatestDocs readOnlyDiskWorld newManager =
     (Inr freshDocs,
      readOnlyDiskWorld\<lparr>requests := (baseUrl @ ''/docs/'') # map pageUrl freshPages\<rparr>,
      refreshedManager)"
  by (simp add: engine_defs readOnlyDiskWorld_def newManager_def online_def indexPage_def
      contentPage_def coreDocs_def baseUrl_def pieces_of_the_example hours_def freshDocs_def
      freshPages_def refreshedManager_def)

lemma errors_inside_the_example:
  "fst (loadCacheFromDisk_try readOnlyDiskWorld newManager) =
     Inl (Error ''metadata unreadable'')"
  "fst (saveCacheToDisk_try readOnlyDiskWorld refreshedManager) = Inl (Error ''write failed'')"
  "fst (refreshDocsCache_try staleSnapshotWorld newManager) = Inl (Error ''fetch failed'')"
  by (simp_all add: engine_defs readOnlyDiskWorld_def newManager_def refreshedManager_def
      staleSnapshotWorld_def offline_def)

text \<open>
  C1. Whatever the network answers, whatever the two cache files hold (missing, corrupt,
  stale, fresh, with \<open>null\<close> entries, not an array), whether they can be written, and
  whatever the manager holds in memory, \<open>fetchLatestDocs\<close> returns a list of documents,
  the values of the map as the call leaves it, and never a thrown error; and neither
  the snapshot load nor the refresh of the corpus nor the snapshot save passes an
  error on to its caller. (The model is a total function over finite lists of pages, so
  the call terminates once each request has been answered.)
\<close>

theorem fetchLatestDocs_never_throws:
  "(\<exists>w' m'. fetchLatestDocs w m = (Inr (mapValues (docsCache m')), w', m')) \<and>
   (\<exists>loaded m'. loadCacheFromDisk w m = (Inr loaded, m')) \<and>
   (\<exists>w' m'. refreshDocsCache w m = (Inr (), w', m')) \<and>
   (\<exists>w'. saveCacheToDisk w m = (Inr (), w'))"
proof (intro conjI)
  show "\<exists>w' m'. fetchLatestDocs w m = (Inr (mapValues (docsCache m')), w', m')"
    by (rule fetchLatestDocs_result)
  show "\<exists>loaded m'. loadCacheFromDisk w m = (Inr loaded, m')"
    by (rule loadCacheFromDisk_returns)
  show "\<exists>w' m'. refreshDocsCache w m = (Inr (), w', m')"
    by (rule refreshDocsCache_returns)
  show "\<exists>w'. saveCacheToDisk w m = (Inr (), w')"
    by (rule saveCacheToDisk_returns)
qed

text \<open>
  At work: with the disk cache unreadable and unwritable and the server up, the load and
  the save both throw inside and the call returns the corpus just fetched; with the
  source down, the refresh throws inside and the call returns the empty list.
\<close>

theorem fetchLatestDocs_never_throws_witness:
  "fst (loadCacheFromDisk_try readOnlyDiskWorld newManager) =
     Inl (Error ''metadata unreadable'') \<and>
   fst (saveCacheToDisk_try readOnlyDiskWorld refreshedManager) =
     Inl (Error ''write failed'') \<and>
   fst (refreshDocsCache_try staleSnapshotWorld newManager) = Inl (Error ''fetch failed'') \<and>
   fetchLatestDocs readOnlyDiskWorld newManager =
     (Inr freshDocs,
      readOnlyDiskWorld\<lparr>requests := (baseUrl @ ''/docs/'') # map pageUrl freshPages\<rparr>,
      refreshedManager)"
  using fetchLatestDocs_never_throws [of readOnlyDiskWorld newManager]
  by (simp add: errors_inside_the_example fetchLatestDocs_readOnlyDiskWorld)

section \<open>A stale snapshot and a failing source\<close>















lemma snapshot_shapes:
  "(\<exists>docs. xs = map Some docs) \<or> (\<exists>docs rest. xs = map Some docs @ None # rest)"
proof (induction xs)
  case Nil
  show ?case by simp
next
  case (Cons x xs)
  show ?case
  proof (cases x)
    case None
    then have "x # xs = map Some [] @ None # xs"
      by simp
    then have "\<exists>docs rest. x # xs = map Some docs @ None # rest"
      by (intro exI)
    then show ?thesis ..
  next
    case (Some d)
    from Cons show ?thesis
    proof
      assume "\<exists>docs. xs = map Some docs"
      then obtain docs where "xs = map Some docs" ..
      with Some have "x # xs = map Some (d # docs)"
        by simp
      then have "\<exists>docs. x # xs = map Some docs"
        by (rule exI)
      then show ?thesis ..
    next
      assume "\<exists>docs rest. xs = map Some docs @ None # rest"
      then obtain docs rest where "xs = map Some docs @ None # rest"
        by blast
      with Some have "x # xs = map Some (d # docs) @ None # rest"
        by simp
      then have "\<exists>docs rest. x # xs = map Some docs @ None # rest"
        by (intro exI)
      then show ?thesis ..
    qed
  qed
qed





section \<open>One request, no retry\<close>

text \<open>
  C3, as stated, fails. With a source that fails on every request, one call of
  \<open>fetchLatestDocs\<close> on a new manager makes exactly one request, for the index: there is
  no second or third attempt.
\<close>

theorem single_attempt_counterexample:
  "net staleSnapshotWorld = offline \<and>
   requests (fst (snd (fetchLatestDocs staleSnapshotWorld newManager))) =
     [baseUrl @ ''/docs/''] \<and>
   length (requests (fst (snd (fetchLatestDocs staleSnapshotWorld newManager)))) \<noteq> 3"
  by (simp add: engine_defs newManager_def staleSnapshotWorld_def hours_def offline_def)

text \<open>
  C3, amended. A refresh calls the corpus source without retry or backoff. When every
  request fails, \<open>refreshDocsCache\<close> makes the one request for the index, catches the
  error, and returns with the manager as it was: control goes back to
  \<open>fetchLatestDocs\<close>, which returns what the map holds.
\<close>

theorem refreshDocsCache_no_retry:
  "(\<forall>n u. net w n u = NetworkError) \<longrightarrow>
     refreshDocsCache w m =
       (Inr (), w\<lparr>requests := requests w @ [baseUrl @ ''/docs/'']\<rparr>, m) \<and>
     fst (fetchLatestDocs_refresh w m) = Inr (mapValues (docsCache m)) \<and>
     snd (snd (fetchLatestDocs_refresh w m)) = m"
  by (simp add: engine_defs)

theorem refreshDocsCache_no_retry_witness:
  "refreshDocsCache staleSnapshotWorld newManager =
     (Inr (), staleSnapshotWorld\<lparr>requests := [baseUrl @ ''/docs/'']\<rparr>, newManager) \<and>
   fst (fetchLatestDocs_refresh staleSnapshotWorld newManager) =
     Inr (mapValues (docsCache newManager))"
  using refreshDocsCache_no_retry [of staleSnapshotWorld newManager]
  by (simp add: staleSnapshotWorld_def offline_def)

text \<open>
  A response for the index that is not \<open>ok\<close> is not looked at: with a server that
  answers every request so, the four core pages are requested once each and the refresh
  ends as a success with an empty corpus.
\<close>

lemma index_response_not_checked:
  "requests (fst (snd (fetchLatestDocs serverErrorWorld newManager))) =
     (baseUrl @ ''/docs/'') # map pageUrl coreDocs \<and>
   fst (fetchLatestDocs serverErrorWorld newManager) = Inr [] \<and>
   lastFetchTime (snd (snd (fetchLatestDocs serverErrorWorld newManager))) =
     Some (ValidDate (now serverErrorWorld))"
  by (simp add: engine_defs newManager_def serverErrorWorld_def hours_def serverError_def
      errorPage_def coreDocs_def baseUrl_def)

section \<open>A reader during a refresh\<close>

lemma fetchPages_append:
  "fetchPages (xs @ ys) w c =
     (case fetchPages xs w c of
        (Inl e, w', c') \<Rightarrow> (Inl e, w', c')
      | (Inr u, w', c') \<Rightarrow> fetchPages ys w' c')"
proof (induction xs arbitrary: w c)
  case Nil
  then show ?case by simp
next
  case (Cons pg xs)
  obtain doc w' where f: "fetchDocumentPage w pg = (Inr doc, w')"
    using fetchDocumentPage_returns by blast
  show ?case
  proof (cases doc)
    case None
    with f Cons.IH [of w' c] show ?thesis by simp
  next
    case (Some d)
    with f Cons.IH [of w' "mapSet (url d) d c"] show ?thesis by simp
  qed
qed

text \<open>
  Cutting the refresh at an await and resuming it at once is the refresh itself.
\<close>

lemma refresh_cut:
  assumes "refreshSuspended k w m = Some (w2, m2, rest)"
  shows "refreshResumed w2 m2 rest = refreshDocsCache w m"
proof -
  from assms obtain docPages w1 where g: "getDocumentationPages w = (Inr docPages, w1)"
    by (auto simp: refreshSuspended_def split: prod.splits sum.splits)
  with assms obtain c where
    p: "fetchPages (take k docPages) w1 [] = (Inr (), w2, c)"
    and m2: "m2 = m\<lparr>docsCache := c\<rparr>" and rest: "rest = drop k docPages"
    by (auto simp: refreshSuspended_def split: prod.splits sum.splits)
  have "fetchPages docPages w1 [] = fetchPages (take k docPages @ drop k docPages) w1 []"
    by simp
  also have "\<dots> = fetchPages rest w2 c"
    unfolding fetchPages_append by (simp add: p rest)
  finally have "fetchPages docPages w1 [] = fetchPages rest w2 c" .
  then show ?thesis
    by (simp add: refreshResumed_def refreshDocsCache_def refreshDocsCache_try_def g m2 Let_def
        split: prod.splits sum.splits)
qed

text \<open>
  While a refresh is suspended the fetch time is still the old one, so the map still
  counts as expired; and a search that finds the map not empty and expired, and whose
  own request for the index fails, answers from the map as it stands.
\<close>

lemma refreshSuspended_fetch_time:
  assumes "refreshSuspended k w m = Some (w2, m2, rest)"
  shows "lastFetchTime m2 = lastFetchTime m"
  using assms
  by (auto simp: refreshSuspended_def split: prod.splits sum.splits)

lemma reader_during_refresh:
  assumes "docsCache m2 \<noteq> []" and "shouldRefreshCache w2 m2"
    and "net w2 (length (requests w2)) (baseUrl @ ''/docs/'') = NetworkError"
  shows "fst (searchDocs w2 m2 query) = Inr (searchDocs_body (mapValues (docsCache m2)) query)"
    and "snd (snd (searchDocs w2 m2 query)) = m2"
  using assms
  by (simp_all add: searchDocs_def fetchLatestDocs_def fetchLatestDocs_refresh_def
      refreshDocsCache_def refreshDocsCache_try_def getDocumentationPages_def fetch_def)

lemmas flaky_defs = flakyWorld_def flaky_def oldManager_def readOnlyDiskWorld_def online_def
  indexPage_def contentPage_def coreDocs_def baseUrl_def pieces_of_the_example hours_def
  freshDocs_def freshPages_def

lemma refreshSuspended_example:
  "refreshSuspended 1 flakyWorld oldManager =
     Some (suspendedWorld, suspendedManager, tl freshPages)"
  by (simp add: refreshSuspended_def engine_defs flaky_defs suspendedWorld_def
      suspendedManager_def)

lemma searchDocs_body_a:
  "searchDocs_body [hd freshDocs] ''a'' = [hd freshDocs]"
  "searchDocs_body [docQuickStart, docDependency] ''a'' = [docQuickStart, docDependency]"
  "searchDocs_body freshDocs ''a'' =
     [freshDocs ! 1, freshDocs ! 2, freshDocs ! 0, freshDocs ! 3, freshDocs ! 4]"
  by code_simp+

lemma reader_example:
  "searchDocs suspendedWorld suspendedManager ''a'' =
     (Inr [hd freshDocs], readerWorld, suspendedManager)"
  by (simp add: searchDocs_def engine_defs suspendedWorld_def suspendedManager_def
      readerWorld_def flaky_defs
      searchDocs_body_a [unfolded freshDocs_def freshPages_def coreDocs_def baseUrl_def
        hours_def, simplified])

lemma refreshResumed_example:
  "snd (snd (refreshResumed readerWorld suspendedManager (tl freshPages))) = refreshedManager"
  by (simp add: refreshResumed_def engine_defs suspendedWorld_def suspendedManager_def
      readerWorld_def flaky_defs refreshedManager_def)

text \<open>
  C9. A refresh of the 50 hours old corpus is suspended after its first page. A second
  call of \<open>searchDocs\<close> on the same manager runs meanwhile: the cache is not empty and
  still counts as expired, the reader's own refresh fails at the index, and the reader
  gets its answer from the map as it stands, which holds one document. Then the
  first refresh goes on to the end. What the reader saw is neither the answer from the
  corpus before the refresh (two documents) nor the answer from the corpus after it (five).
\<close>

theorem reader_sees_partial_corpus:
  "refreshSuspended 1 flakyWorld oldManager =
     Some (suspendedWorld, suspendedManager, tl freshPages) \<and>
   searchDocs suspendedWorld suspendedManager ''a'' =
     (Inr [hd freshDocs], readerWorld, suspendedManager) \<and>
   snd (snd (refreshResumed readerWorld suspendedManager (tl freshPages))) =
     refreshedManager \<and>
   searchDocs_body (mapValues (docsCache oldManager)) ''a'' = [docQuickStart, docDependency] \<and>
   searchDocs_body (mapValues (docsCache refreshedManager)) ''a'' =
     [freshDocs ! 1, freshDocs ! 2, freshDocs ! 0, freshDocs ! 3, freshDocs ! 4] \<and>
   [hd freshDocs] \<noteq> [docQuickStart, docDependency] \<and>
   [hd freshDocs] \<noteq> [freshDocs ! 1, freshDocs ! 2, freshDocs ! 0, freshDocs ! 3, freshDocs ! 4]"
proof -
  have "mapValues (docsCache oldManager) = [docQuickStart, docDependency]"
    by (simp add: mapValues_def oldManager_def)
  moreover have "mapValues (docsCache refreshedManager) = freshDocs"
    by (simp add: mapValues_def refreshedManager_def comp_def)
  ultimately have "searchDocs_body (mapValues (docsCache oldManager)) ''a'' =
      [docQuickStart, docDependency]"
    and "searchDocs_body (mapValues (docsCache refreshedManager)) ''a'' =
      [freshDocs ! 1, freshDocs ! 2, freshDocs ! 0, freshDocs ! 3, freshDocs ! 4]"
    by (simp_all add: searchDocs_body_a)
  moreover have "[hd freshDocs] \<noteq> [docQuickStart, docDependency]"
    and "[hd freshDocs] \<noteq>
      [freshDocs ! 1, freshDocs ! 2, freshDocs ! 0, freshDocs ! 3, freshDocs ! 4]"
    by simp_all
  ultimately show ?thesis
    using refreshSuspended_example reader_example refreshResumed_example
    by (intro conjI)
qed

section \<open>Ranked search\<close>

lemma searchDocs_body_example:
  "searchDocs_body [docQuickStart, docDependency] ''dependency'' =
     [docDependency, docQuickStart]"
  by code_simp

lemma titleHit_example:
  "titleHit ''dependency'' docDependency" "\<not> titleHit ''dependency'' docQuickStart"
  by code_simp+

text \<open>
  C4. For every corpus \<open>docs\<close> and every query (so in particular every query that is
  neither empty nor made of white space only), the result of \<open>searchDocs\<close> holds exactly
  the documents whose folded title, content or section contains the folded query, each as
  often as the corpus does; a document whose title contains the query never comes after
  one whose title does not; among documents that agree on the title test, one whose section
  contains the query never comes after one whose section does not; and the documents
  that agree on both tests are in the order of the corpus.
\<close>

theorem searchDocs_exact_and_ranked:
  "let r = searchDocs_body docs query in
     mset r = mset (filter (docMatches query) docs) \<and>
     (\<forall>i j. i < j \<and> j < length r \<longrightarrow>
        (titleHit query (r ! j) \<longrightarrow> titleHit query (r ! i)) \<and>
        (titleHit query (r ! i) = titleHit query (r ! j) \<longrightarrow>
           sectionHit query (r ! j) \<longrightarrow> sectionHit query (r ! i))) \<and>
     (\<forall>t s. filter (\<lambda>d. titleHit query d = t \<and> sectionHit query d = s) r =
            filter (\<lambda>d. titleHit query d = t \<and> sectionHit query d = s)
              (filter (docMatches query) docs))"
proof -
  define ms where "ms = filter (docMatches query) docs"
  define r where "r = searchDocs_body docs query"
  have r: "r = sort_key (rank query) ms"
    by (simp add: r_def ms_def searchDocs_body_sort_key)
  have m: "mset r = mset ms"
    by (simp add: r)
  have srt: "sorted (map (rank query) r)"
    by (simp add: r)
  have ord: "rank query (r ! i) \<le> rank query (r ! j)" if "i < j" "j < length r" for i j
    using srt that by (simp add: sorted_iff_nth_mono)
  have o1: "titleHit query (r ! j) \<longrightarrow> titleHit query (r ! i)"
    if "i < j" "j < length r" for i j
    using ord [OF that] by (simp add: rank_def split: if_splits)
  have o2: "titleHit query (r ! i) = titleHit query (r ! j) \<longrightarrow>
           sectionHit query (r ! j) \<longrightarrow> sectionHit query (r ! i)"
    if "i < j" "j < length r" for i j
    using ord [OF that] by (simp add: rank_def split: if_splits)
  have st: "filter (\<lambda>d. titleHit query d = t \<and> sectionHit query d = s) r =
            filter (\<lambda>d. titleHit query d = t \<and> sectionHit query d = s) ms" for t s
  proof -
    define k :: nat where "k = (if t then 0 else 2) + (if s then 0 else 1)"
    have "(\<lambda>d. titleHit query d = t \<and> sectionHit query d = s) = (\<lambda>d. rank query d = k)"
      by (intro ext) (simp add: rank_def k_def)
    then show ?thesis
      by (simp add: r sort_key_stable)
  qed
  show ?thesis
    unfolding Let_def r_def [symmetric] ms_def [symmetric]
    using m o1 o2 st by blast
qed

theorem searchDocs_exact_and_ranked_witness:
  "searchDocs_body [docQuickStart, docDependency] ''dependency'' =
     [docDependency, docQuickStart] \<and>
   (0 :: nat) < 1 \<and>
   1 < length (searchDocs_body [docQuickStart, docDependency] ''dependency'') \<and>
   titleHit ''dependency''
     (searchDocs_body [docQuickStart, docDependency] ''dependency'' ! 0) \<and>
   \<not> titleHit ''dependency''
     (searchDocs_body [docQuickStart, docDependency] ''dependency'' ! 1) \<and>
   mset (searchDocs_body [docQuickStart, docDependency] ''dependency'') =
     mset (filter (docMatches ''dependency'') [docQuickStart, docDependency])"
  using searchDocs_exact_and_ranked [of "[docQuickStart, docDependency]" "''dependency''"]
  by (simp add: Let_def searchDocs_body_example titleHit_example)

section \<open>The empty query and queries of white space\<close>

lemma toLowerChar_space: "isSpace c \<Longrightarrow> toLowerChar c = c"
  unfolding isSpace_def by (elim disjE) (simp_all add: toLowerChar_def)

lemma toLowerCase_spaces: "list_all isSpace q \<Longrightarrow> toLowerCase q = q"
  by (induction q) (simp_all add: toLowerCase_def toLowerChar_space)

lemma docMatches_Nil: "docMatches [] d"
  by (simp add: docMatches_def titleHit_def)

lemma rank_Nil: "rank [] d = 0"
  by (simp add: rank_def titleHit_def sectionHit_def)

lemma searchDocs_body_empty_query: "searchDocs_body docs [] = docs"
proof -
  have "filter (docMatches []) docs = docs"
    by (simp add: docMatches_Nil)
  moreover have "rank [] = (\<lambda>d. 0)"
    by (intro ext) (rule rank_Nil)
  ultimately show ?thesis
    by (simp add: searchDocs_body_sort_key sort_key_const)
qed

lemma three_spaces: "list_all isSpace ''   ''"
  by code_simp

text \<open>
  C5, as stated, fails for a query of white space: the query of three spaces matches
  neither of the two documents, and \<open>searchDocs\<close> returns nothing.
\<close>

theorem whitespace_query_counterexample:
  "list_all isSpace ''   '' \<and>
   searchDocs_body [docQuickStart, docDependency] ''   '' = [] \<and>
   length (searchDocs_body [docQuickStart, docDependency] ''   '') \<noteq>
     length [docQuickStart, docDependency]"
  by code_simp

text \<open>
  C5, amended. For every corpus, \<open>searchDocs\<close> with the empty query returns every
  document, unfiltered and in the order of the corpus, so the result count is the size
  of the corpus. A query of white space only is not trimmed: it is searched for as it
  is, and the result holds exactly the documents whose folded title, content or section
  contains that run of white space.
\<close>

theorem searchDocs_empty_query:
  "searchDocs_body docs [] = docs \<and>
   length (searchDocs_body docs []) = length docs \<and>
   (list_all isSpace query \<longrightarrow>
      mset (searchDocs_body docs query) =
      mset (filter (\<lambda>d. stringIncludes (toLowerCase (title d)) query \<or>
                          stringIncludes (toLowerCase (content d)) query \<or>
                          stringIncludes (toLowerCase (docSection d)) query) docs))"
proof -
  have "mset (searchDocs_body docs query) = mset (filter (docMatches query) docs)"
    by (simp add: searchDocs_body_sort_key)
  moreover have "docMatches query =
      (\<lambda>d. stringIncludes (toLowerCase (title d)) query \<or>
           stringIncludes (toLowerCase (content d)) query \<or>
           stringIncludes (toLowerCase (docSection d)) query)" if "list_all isSpace query"
    using toLowerCase_spaces [OF that]
    by (intro ext) (simp add: docMatches_def titleHit_def contentHit_def sectionHit_def)
  ultimately show ?thesis
    by (simp add: searchDocs_body_empty_query)
qed

theorem searchDocs_empty_query_witness:
  "searchDocs_body [docQuickStart, docDependency] [] = [docQuickStart, docDependency] \<and>
   list_all isSpace ''   '' \<and>
   mset (searchDocs_body [docQuickStart, docDependency] ''   '') =
   mset (filter (\<lambda>d. stringIncludes (toLowerCase (title d)) ''   '' \<or>
                       stringIncludes (toLowerCase (content d)) ''   '' \<or>
                       stringIncludes (toLowerCase (docSection d)) ''   '')
          [docQuickStart, docDependency])"
  using searchDocs_empty_query [of "[docQuickStart, docDependency]" "''   ''"] three_spaces
  by simp

section \<open>getCliCommandHelp\<close>






section \<open>getCodeExamples\<close>

lemma sliceTo_nonneg: "0 \<le> n \<Longrightarrow> sliceTo n xs = take (nat n) xs"
  by (simp add: sliceTo_def Let_def min_def)

lemma distinct_foldl_setAdd: "distinct acc \<Longrightarrow> distinct (foldl setAdd acc xs)"
  by (induction xs arbitrary: acc) (auto simp: setAdd_def)

lemma distinct_arrayFromSet: "distinct (arrayFromSet xs)"
  by (simp add: arrayFromSet_def distinct_foldl_setAdd)

lemma extractCodeBlocks_bounds:
  "length (extractCodeBlocks text) \<le> 5 \<and> distinct (extractCodeBlocks text)"
  by (simp add: extractCodeBlocks_def Let_def sliceTo_nonneg distinct_arrayFromSet)

lemma foldl_push:
  "foldl (\<lambda>results doc. if f doc \<noteq> [] then results @ [(doc, f doc)] else results) acc ds =
   acc @ map (\<lambda>d. (d, f d)) (filter (\<lambda>d. f d \<noteq> []) ds)"
  by (induction ds arbitrary: acc) auto

lemma getCodeExamples_body_eq:
  "getCodeExamples_body docs topic =
     map (\<lambda>d. (d, extractCodeBlocks (content d)))
       (filter (\<lambda>d. extractCodeBlocks (content d) \<noteq> [])
          (take 10 (filter (topicHit topic) docs)))"
proof -
  have "topicHit topic = (\<lambda>doc. stringIncludes (toLowerCase (title doc)) (toLowerCase topic) \<or>
                                 stringIncludes (toLowerCase (content doc)) (toLowerCase topic))"
    by (intro ext) (simp add: topicHit_def titleHit_def contentHit_def)
  then show ?thesis
    by (simp add: getCodeExamples_body_def Let_def sliceTo_nonneg
        foldl_push [where f = "\<lambda>d. extractCodeBlocks (content d)"])
qed

text \<open>
  Every piece returns what is left of the text behind its match, never more than it was
  given. So each match of a pattern is a stretch of the text, and it begins with the
  literal of the pattern, in any case.
\<close>

lemma literal_consumes:
  "literal kw s = Some r \<Longrightarrow> length r + length kw = length s \<and> startsWithIgnoringCase s kw"
  by (induction kw s rule: literal.induct)
    (auto simp: toLowerChar_sameLetter split: if_splits)

lemma pieces_consume:
  "spaces0 s = Some r \<Longrightarrow> length r \<le> length s"
  "spaces1 s = Some r \<Longrightarrow> length r \<le> length s"
  "word1 s = Some r \<Longrightarrow> length r \<le> length s"
  "restOfLine s = Some r \<Longrightarrow> length r \<le> length s"
  "quoted s = Some r \<Longrightarrow> length r \<le> length s"
  "braces s = Some r \<Longrightarrow> length r \<le> length s"
  "literal kw s = Some r \<Longrightarrow> length r \<le> length s"
proof -
  have d: "length (dropWhile P xs) \<le> length xs" for P and xs :: string
    by (rule length_dropWhile_le)
  have t: "length (tl (dropWhile P xs)) \<le> length xs" for P and xs :: string
    using d [of P xs] by simp
  show "spaces0 s = Some r \<Longrightarrow> length r \<le> length s"
    using d by (auto simp: spaces0_def)
  show "spaces1 s = Some r \<Longrightarrow> length r \<le> length s"
    using d by (auto simp: spaces1_def le_SucI split: list.splits if_splits)
  show "word1 s = Some r \<Longrightarrow> length r \<le> length s"
    using d by (auto simp: word1_def le_SucI split: list.splits if_splits)
  show "restOfLine s = Some r \<Longrightarrow> length r \<le> length s"
    using d by (auto simp: restOfLine_def)
  show "quoted s = Some r \<Longrightarrow> length r \<le> length s"
    using t by (auto simp: quoted_def Let_def le_SucI split: list.splits if_splits)
  show "braces s = Some r \<Longrightarrow> length r \<le> length s"
    using t by (auto simp: braces_def Let_def le_SucI split: list.splits if_splits)
  show "literal kw s = Some r \<Longrightarrow> length r \<le> length s"
    using literal_consumes [of kw s r] by simp
qed

lemma seqMatch_consumes:
  assumes "\<forall>p \<in> set ps. \<forall>s r. p s = Some r \<longrightarrow> length r \<le> length s"
  shows "seqMatch ps s = Some r \<Longrightarrow> length r \<le> length s"
  using assms
proof (induction ps arbitrary: s)
  case Nil
  then show ?case by simp
next
  case (Cons p ps)
  from Cons.prems(1) obtain r0 where r0: "p s = Some r0" "seqMatch ps r0 = Some r"
    by (auto split: option.splits)
  have "length r0 \<le> length s"
    using Cons.prems(2) r0(1) by simp
  moreover have "length r \<le> length r0"
    using Cons.IH [OF r0(2)] Cons.prems(2) by simp
  ultimately show ?case by simp
qed

lemma matchAll_elem:
  "m \<in> set (matchAll p k str) \<Longrightarrow>
   \<exists>pre t r. str = pre @ t \<and> p t = Some r \<and> m = take (length t - length r) t"
proof (induction p k str rule: matchAll.induct)
  case (1 p skip)
  then show ?case by simp
next
  case (2 p k c cs)
  then obtain pre t r where "cs = pre @ t" "p t = Some r" "m = take (length t - length r) t"
    by auto
  then have "c # cs = (c # pre) @ t \<and> p t = Some r \<and> m = take (length t - length r) t"
    by simp
  then show ?case by blast
next
  case (3 p c cs)
  show ?case
  proof (cases "p (c # cs)")
    case None
    with 3 obtain pre t r where "cs = pre @ t" "p t = Some r" "m = take (length t - length r) t"
      by auto
    then have "c # cs = (c # pre) @ t \<and> p t = Some r \<and> m = take (length t - length r) t"
      by simp
    then show ?thesis by blast
  next
    case (Some r)
    with 3(3) consider "m = take (length (c # cs) - length r) (c # cs)"
      | "m \<in> set (matchAll p (length (c # cs) - length r - 1) cs)"
      by (auto simp: Let_def)
    then show ?thesis
    proof cases
      case 1
      with Some have "c # cs = [] @ (c # cs) \<and> p (c # cs) = Some r \<and>
                      m = take (length (c # cs) - length r) (c # cs)"
        by simp
      then show ?thesis by blast
    next
      case 2
      with 3(2) [OF Some refl] obtain pre t r'
        where "cs = pre @ t" "p t = Some r'" "m = take (length t - length r') t"
        by auto
      then have "c # cs = (c # pre) @ t \<and> p t = Some r' \<and> m = take (length t - length r') t"
        by simp
      then show ?thesis by blast
    qed
  qed
qed

lemma startsWithIgnoringCase_take:
  "startsWithIgnoringCase s kw \<Longrightarrow> length kw \<le> n \<Longrightarrow> startsWithIgnoringCase (take n s) kw"
proof (induction s kw arbitrary: n rule: startsWithIgnoringCase.induct)
  case (1 s)
  show ?case by simp
next
  case (2 p ps)
  then show ?case by simp
next
  case (3 c cs p ps)
  then obtain n' where "n = Suc n'" "length ps \<le> n'"
    by (cases n) auto
  with 3 show ?case by simp
qed

lemma pattern_sound:
  assumes rest: "\<forall>p \<in> set rest. \<forall>s r. p s = Some r \<longrightarrow> length r \<le> length s"
    and m: "m \<in> set (matchAll (seqMatch (literal kw # rest)) 0 text)"
  shows "\<exists>p q. text = p @ m @ q \<and> startsWithIgnoringCase m kw"
proof -
  from matchAll_elem [OF m] obtain pre t r
    where t: "text = pre @ t" "seqMatch (literal kw # rest) t = Some r"
      "m = take (length t - length r) t"
    by blast
  from t(2) obtain r0 where r0: "literal kw t = Some r0" "seqMatch rest r0 = Some r"
    by (auto split: option.splits)
  have "length r \<le> length r0"
    using seqMatch_consumes [OF rest r0(2)] by simp
  moreover have l: "length r0 + length kw = length t" "startsWithIgnoringCase t kw"
    using literal_consumes [OF r0(1)] by simp_all
  ultimately have "length kw \<le> length t - length r"
    by simp
  with l(2) have "startsWithIgnoringCase m kw"
    unfolding t(3) by (rule startsWithIgnoringCase_take)
  moreover have "text = pre @ m @ drop (length t - length r) t"
    by (simp add: t(1,3))
  ultimately show ?thesis by blast
qed

lemma set_arrayFromSet: "set (arrayFromSet xs) = set xs"
proof -
  have "set (foldl setAdd acc xs) = set acc \<union> set xs" for acc :: "'a list"
    by (induction xs arbitrary: acc) (auto simp: setAdd_def)
  then show ?thesis
    by (simp add: arrayFromSet_def)
qed

lemma foldl_append_concat:
  "foldl (\<lambda>examples pattern. examples @ f pattern) acc ps = acc @ concat (map f ps)"
  by (induction ps arbitrary: acc) simp_all

lemma extractCodeBlocks_subset:
  "set (extractCodeBlocks text) \<subseteq>
     (\<Union>pattern \<in> set codePatterns. trim ` set (matchAll (seqMatch pattern) 0 text))"
proof -
  have "set (extractCodeBlocks text) \<subseteq>
          set (foldl (\<lambda>examples pattern.
                       examples @ map trim (matchAll (seqMatch pattern) 0 text))
                 [] codePatterns)"
    using set_take_subset [of 5 "arrayFromSet (foldl (\<lambda>examples pattern.
                       examples @ map trim (matchAll (seqMatch pattern) 0 text))
                 [] codePatterns)"]
    by (simp add: extractCodeBlocks_def Let_def sliceTo_nonneg set_arrayFromSet)
  then show ?thesis
    by (simp add: foldl_append_concat)
qed

lemma codePatterns_shape:
  assumes "pattern \<in> set codePatterns"
  shows "\<exists>kw \<in> set snippetKeywords. \<exists>rest. pattern = literal kw # rest \<and>
           (\<forall>p \<in> set rest. \<forall>s r. p s = Some r \<longrightarrow> length r \<le> length s)"
proof -
  from assms consider
      "pattern = [literal ''terragrunt'', spaces1, word1, restOfLine]"
    | "pattern = [literal ''terraform'', spaces0, braces]"
    | "pattern = [literal ''remote_state'', spaces0, braces]"
    | "pattern = [literal ''dependency'', spaces0, quoted, spaces0, braces]"
    | "pattern = [literal ''include'', spaces0, quoted, spaces0, braces]"
    | "pattern = [literal ''inputs'', spaces0, literal ''='', spaces0, braces]"
    unfolding codePatterns_def by (simp only: set_simps insert_iff empty_iff) blast
  then show ?thesis
  proof cases
    case 1
    have "''terragrunt'' \<in> set snippetKeywords"
      by (simp add: snippetKeywords_def)
    moreover have "\<forall>p \<in> set [spaces1, word1, restOfLine]. \<forall>s r. p s = Some r \<longrightarrow> length r \<le> length s"
      by (simp add: pieces_consume)
    ultimately show ?thesis
      using 1 by blast
  next
    case 2
    have "''terraform'' \<in> set snippetKeywords"
      by (simp add: snippetKeywords_def)
    moreover have "\<forall>p \<in> set [spaces0, braces]. \<forall>s r. p s = Some r \<longrightarrow> length r \<le> length s"
      by (simp add: pieces_consume)
    ultimately show ?thesis
      using 2 by blast
  next
    case 3
    have "''remote_state'' \<in> set snippetKeywords"
      by (simp add: snippetKeywords_def)
    moreover have "\<forall>p \<in> set [spaces0, braces]. \<forall>s r. p s = Some r \<longrightarrow> length r \<le> length s"
      by (simp add: pieces_consume)
    ultimately show ?thesis
      using 3 by blast
  next
    case 4
    have "''dependency'' \<in> set snippetKeywords"
      by (simp add: snippetKeywords_def)
    moreover have "\<forall>p \<in> set [spaces0, quoted, spaces0, braces].
                     \<forall>s r. p s = Some r \<longrightarrow> length r \<le> length s"
      by (simp add: pieces_consume)
    ultimately show ?thesis
      using 4 by blast
  next
    case 5
    have "''include'' \<in> set snippetKeywords"
      by (simp add: snippetKeywords_def)
    moreover have "\<forall>p \<in> set [spaces0, quoted, spaces0, braces].
                     \<forall>s r. p s = Some r \<longrightarrow> length r \<le> length s"
      by (simp add: pieces_consume)
    ultimately show ?thesis
      using 5 by blast
  next
    case 6
    have "''inputs'' \<in> set snippetKeywords"
      by (simp add: snippetKeywords_def)
    moreover have "\<forall>p \<in> set [spaces0, literal ''='', spaces0, braces].
                     \<forall>s r. p s = Some r \<longrightarrow> length r \<le> length s"
      by (simp add: pieces_consume)
    ultimately show ?thesis
      using 6 by blast
  qed
qed

lemma extractCodeBlocks_sound:
  assumes "s \<in> set (extractCodeBlocks text)"
  shows "\<exists>kw \<in> set snippetKeywords. \<exists>p m q.
           text = p @ m @ q \<and> startsWithIgnoringCase m kw \<and> s = trim m"
proof -
  from assms extractCodeBlocks_subset obtain pattern m
    where pm: "pattern \<in> set codePatterns" "m \<in> set (matchAll (seqMatch pattern) 0 text)"
      "s = trim m"
    by fastforce
  from codePatterns_shape [OF pm(1)] obtain kw rest
    where kw: "kw \<in> set snippetKeywords" "pattern = literal kw # rest"
      "\<forall>p \<in> set rest. \<forall>s r. p s = Some r \<longrightarrow> length r \<le> length s"
    by blast
  from pattern_sound [OF kw(3)] pm(2) kw(2)
  obtain p q where "text = p @ m @ q" "startsWithIgnoringCase m kw"
    by blast
  with kw(1) pm(3) show ?thesis
    by blast
qed

lemma topicHit_ignoring_case:
  "topicHit topic d =
     (includesIgnoringCase (title d) topic \<or> includesIgnoringCase (content d) topic)"
  by (simp add: topicHit_def titleHit_def contentHit_def stringIncludes_toLowerCase)

text \<open>
  C7. For every corpus and topic, \<open>getCodeExamples\<close> selects the documents whose title
  or content contains the topic ignoring case, keeps the first ten of them in the order
  of the corpus, extracts from each the snippets of \<open>extractCodeBlocks\<close>, and leaves
  out every document without a snippet. The snippets of a document are at most five and
  pairwise different, and each of them is, trimmed, a stretch of the content of the
  document that begins with one of the six keywords, in any case. So the result has at
  most ten entries, each with between one and five different snippets.
\<close>

theorem getCodeExamples_capped:
  "let selected = filter (\<lambda>d. includesIgnoringCase (title d) topic \<or>
                              includesIgnoringCase (content d) topic) docs;
       candidates = take 10 selected;
       r = getCodeExamples_body docs topic
   in r = map (\<lambda>d. (d, extractCodeBlocks (content d)))
            (filter (\<lambda>d. extractCodeBlocks (content d) \<noteq> []) candidates) \<and>
      length r \<le> 10 \<and>
      (\<forall>(d, examples) \<in> set r.
         examples = extractCodeBlocks (content d) \<and> examples \<noteq> [] \<and>
         length examples \<le> 5 \<and> distinct examples \<and>
         (\<forall>s \<in> set examples. \<exists>kw \<in> set snippetKeywords. \<exists>p m q.
            content d = p @ m @ q \<and> startsWithIgnoringCase m kw \<and> s = trim m))"
proof -
  define candidates where
    "candidates = take 10 (filter (\<lambda>d. includesIgnoringCase (title d) topic \<or>
                              includesIgnoringCase (content d) topic) docs)"
  define r where "r = getCodeExamples_body docs topic"
  have t: "topicHit topic = (\<lambda>d. includesIgnoringCase (title d) topic \<or>
                              includesIgnoringCase (content d) topic)"
    by (intro ext) (rule topicHit_ignoring_case)
  have r: "r = map (\<lambda>d. (d, extractCodeBlocks (content d)))
            (filter (\<lambda>d. extractCodeBlocks (content d) \<noteq> []) candidates)"
    by (simp add: r_def candidates_def getCodeExamples_body_eq t)
  have "length r \<le> length candidates"
    by (simp add: r)
  moreover have "length candidates \<le> 10"
    by (simp add: candidates_def)
  ultimately have l: "length r \<le> 10"
    by simp
  have e: "\<forall>(d, examples) \<in> set r.
         examples = extractCodeBlocks (content d) \<and> examples \<noteq> [] \<and>
         length examples \<le> 5 \<and> distinct examples \<and>
         (\<forall>s \<in> set examples. \<exists>kw \<in> set snippetKeywords. \<exists>p m q.
            content d = p @ m @ q \<and> startsWithIgnoringCase m kw \<and> s = trim m)"
    using extractCodeBlocks_bounds extractCodeBlocks_sound by (auto simp: r)
  show ?thesis
    unfolding Let_def candidates_def [symmetric] r_def [symmetric]
    using r l e by blast
qed

lemma exampleContent_blocks:
  "extractCodeBlocks exampleContent =
     [''dependency \"test\" { config_path = \"../test\" }'', ''inputs = { a = 1 }'']"
  by code_simp

lemma mixedCorpus_hits:
  "includesIgnoringCase (title snippetDoc) ''DEPENDENCY''"
  "includesIgnoringCase (content noSnippetDoc) ''DEPENDENCY''"
  "\<not> includesIgnoringCase (title otherDoc) ''DEPENDENCY''"
  "\<not> includesIgnoringCase (content otherDoc) ''DEPENDENCY''"
  "includesIgnoringCase exampleContent ''DEPENDENCY''"
  by code_simp+

lemma mixedCorpus_blocks:
  "extractCodeBlocks (content snippetDoc) =
     [''terragrunt plan --all'',
      ''terraform { source = \"x\" }'',
      ''Remote_State { backend = \"s3\" }'',
      ''dependency \"vpc\" { config_path = \"../vpc\" }'',
      ''include \"root\" { path = \"p\" }'']"
  "extractCodeBlocks (content noSnippetDoc) = []"
  "extractCodeBlocks (content otherDoc) = [''inputs = { region = \"eu\" }'']"
  by code_simp+

lemma twentyDocs_selected:
  "filter (\<lambda>d. includesIgnoringCase (title d) ''DEPENDENCY'' \<or>
               includesIgnoringCase (content d) ''DEPENDENCY'') twentyDocs = twentyDocs"
  by (simp add: twentyDocs_def exampleDoc_def mixedCorpus_hits)

lemma mixedCorpus_selected:
  "filter (\<lambda>d. includesIgnoringCase (title d) ''DEPENDENCY'' \<or>
               includesIgnoringCase (content d) ''DEPENDENCY'') mixedCorpus =
     snippetDoc # noSnippetDoc # twentyDocs"
  by (simp add: mixedCorpus_def mixedCorpus_hits twentyDocs_selected)

lemma mixedCorpus_candidates:
  "take 10 (snippetDoc # noSnippetDoc # twentyDocs) =
     snippetDoc # noSnippetDoc # map exampleDoc ''abcdefgh''"
  by (simp add: twentyDocs_def)

lemma mixedCorpus_entries:
  "map (\<lambda>d. (d, extractCodeBlocks (content d)))
     (filter (\<lambda>d. extractCodeBlocks (content d) \<noteq> [])
        (snippetDoc # noSnippetDoc # map exampleDoc ''abcdefgh'')) =
   (snippetDoc,
    [''terragrunt plan --all'',
     ''terraform { source = \"x\" }'',
     ''Remote_State { backend = \"s3\" }'',
     ''dependency \"vpc\" { config_path = \"../vpc\" }'',
     ''include \"root\" { path = \"p\" }'']) #
   map (\<lambda>c. (exampleDoc c,
               [''dependency \"test\" { config_path = \"../test\" }'', ''inputs = { a = 1 }'']))
     ''abcdefgh''"
  by (simp add: mixedCorpus_blocks exampleDoc_def exampleContent_blocks)

lemma twentyDocs_blocks:
  "filter (\<lambda>d. extractCodeBlocks (content d) \<noteq> []) (take 10 twentyDocs) = take 10 twentyDocs"
  by (simp add: twentyDocs_def exampleDoc_def exampleContent_blocks)

text \<open>
  The topic \<open>DEPENDENCY\<close> on the mixed corpus. 22 of its 23 documents name the topic, in
  lower, mixed or upper case; the first ten are kept. The first has six different
  blocks, one of them twice, and gives its first five; the second has none and is left
  out; the other eight give their two blocks each: nine entries. On the twenty documents
  alone the result is the first ten.
\<close>

theorem getCodeExamples_capped_witness:
  "length (filter (\<lambda>d. includesIgnoringCase (title d) ''DEPENDENCY'' \<or>
                       includesIgnoringCase (content d) ''DEPENDENCY'') mixedCorpus) = 22 \<and>
   getCodeExamples_body mixedCorpus ''DEPENDENCY'' =
     (snippetDoc,
      [''terragrunt plan --all'',
       ''terraform { source = \"x\" }'',
       ''Remote_State { backend = \"s3\" }'',
       ''dependency \"vpc\" { config_path = \"../vpc\" }'',
       ''include \"root\" { path = \"p\" }'']) #
     map (\<lambda>c. (exampleDoc c,
                 [''dependency \"test\" { config_path = \"../test\" }'', ''inputs = { a = 1 }'']))
       ''abcdefgh'' \<and>
   length (getCodeExamples_body mixedCorpus ''DEPENDENCY'') = 9 \<and>
   length twentyDocs = 20 \<and>
   map fst (getCodeExamples_body twentyDocs ''DEPENDENCY'') = take 10 twentyDocs"
proof -
  have n: "length twentyDocs = 20"
    by (simp add: twentyDocs_def)
  from getCodeExamples_capped [of "''DEPENDENCY''" mixedCorpus]
  have m: "getCodeExamples_body mixedCorpus ''DEPENDENCY'' =
     (snippetDoc,
      [''terragrunt plan --all'',
       ''terraform { source = \"x\" }'',
       ''Remote_State { backend = \"s3\" }'',
       ''dependency \"vpc\" { config_path = \"../vpc\" }'',
       ''include \"root\" { path = \"p\" }'']) #
     map (\<lambda>c. (exampleDoc c,
                 [''dependency \"test\" { config_path = \"../test\" }'', ''inputs = { a = 1 }'']))
       ''abcdefgh''"
    unfolding Let_def mixedCorpus_selected mixedCorpus_candidates mixedCorpus_entries
    by (rule conjunct1)
  from getCodeExamples_capped [of "''DEPENDENCY''" twentyDocs]
  have "getCodeExamples_body twentyDocs ''DEPENDENCY'' =
          map (\<lambda>d. (d, extractCodeBlocks (content d))) (take 10 twentyDocs)"
    unfolding Let_def twentyDocs_selected twentyDocs_blocks
    by (rule conjunct1)
  then have t: "map fst (getCodeExamples_body twentyDocs ''DEPENDENCY'') = take 10 twentyDocs"
    by (simp add: comp_def)
  have "length (getCodeExamples_body mixedCorpus ''DEPENDENCY'') = 9"
    unfolding m by simp
  with m n t show ?thesis
    by (simp add: mixedCorpus_selected)
qed

section \<open>Limits at the search tool\<close>

lemma searchDocs_returns: "\<exists>results w' m'. searchDocs w m query = (Inr results, w', m')"
proof -
  obtain docs w' m' where "fetchLatestDocs w m = (Inr docs, w', m')"
    using fetchLatestDocs_returns by blast
  then show ?thesis by (simp add: searchDocs_def)
qed

lemma sliceTo_zero: "sliceTo 0 xs = []"
  by (simp add: sliceTo_def)

lemma sliceTo_all: "int (length xs) \<le> n \<Longrightarrow> sliceTo n xs = xs"
  by (simp add: sliceTo_def Let_def min_def)

lemma sliceTo_negative: "n < 0 \<Longrightarrow> sliceTo n xs = take (length xs - nat (- n)) xs"
  by (auto simp add: sliceTo_def Let_def max_def intro!: arg_cong [where f = "\<lambda>k. take k xs"])

text \<open>
  C8. \<open>searchTerragruntDocs\<close> with a limit never throws: it returns the result object,
  whose total is the number of matches that \<open>searchDocs\<close> found, before slicing. With
  limit 0 the results are empty; with a limit of at least the number of matches they
  are all the matches, one entry each and nothing more; with a negative limit the call
  still returns (\<open>slice\<close> then drops that many matches from the end).
\<close>

theorem searchTerragruntDocs_limit:
  "\<exists>results w' rm hits.
     searchDocs w (resourceHandler h) query = (Inr results, w', rm) \<and>
     searchTerragruntDocs w h query (Some limit) =
       (Inr (SearchResults query hits (length results) (int (length results) > limit)),
        w', h\<lparr>resourceHandler := rm\<rparr>) \<and>
     (limit = 0 \<longrightarrow> hits = []) \<and>
     (int (length results) \<le> limit \<longrightarrow> hits = map searchHit results) \<and>
     (limit < 0 \<longrightarrow> hits = map searchHit (take (length results - nat (- limit)) results))"
proof -
  obtain results w' rm where s: "searchDocs w (resourceHandler h) query = (Inr results, w', rm)"
    using searchDocs_returns by blast
  define hits where "hits = map searchHit (sliceTo limit results)"
  have t: "searchTerragruntDocs w h query (Some limit) =
       (Inr (SearchResults query hits (length results) (int (length results) > limit)),
        w', h\<lparr>resourceHandler := rm\<rparr>)"
    using s by (simp add: searchTerragruntDocs_def searchDocumentation_def hits_def)
  have z: "limit = 0 \<longrightarrow> hits = []"
    by (simp add: hits_def sliceTo_zero)
  have a: "int (length results) \<le> limit \<longrightarrow> hits = map searchHit results"
    by (simp add: hits_def sliceTo_all)
  have n: "limit < 0 \<longrightarrow> hits = map searchHit (take (length results - nat (- limit)) results)"
    by (simp add: hits_def sliceTo_negative)
  from s t z a n show ?thesis by blast
qed

lemma warm_search:
  "searchDocs staleSnapshotWorld warmManager ''dependency'' =
     (Inr [docDependency, docQuickStart], staleSnapshotWorld, warmManager)"
  by (simp add: searchDocs_def engine_defs warmManager_def staleSnapshotWorld_def hours_def
      searchDocs_body_example)

theorem searchTerragruntDocs_limit_witness:
  "searchTerragruntDocs staleSnapshotWorld warmHandler ''dependency'' (Some 0) =
     (Inr (SearchResults ''dependency'' [] 2 True), staleSnapshotWorld, warmHandler) \<and>
   searchTerragruntDocs staleSnapshotWorld warmHandler ''dependency'' (Some 1000) =
     (Inr (SearchResults ''dependency'' [searchHit docDependency, searchHit docQuickStart] 2 False),
      staleSnapshotWorld, warmHandler) \<and>
   searchTerragruntDocs staleSnapshotWorld warmHandler ''dependency'' (Some (- 1)) =
     (Inr (SearchResults ''dependency'' [searchHit docDependency] 2 True),
      staleSnapshotWorld, warmHandler)"
  using searchTerragruntDocs_limit [of staleSnapshotWorld warmHandler "''dependency''" 0]
    searchTerragruntDocs_limit [of staleSnapshotWorld warmHandler "''dependency''" 1000]
    searchTerragruntDocs_limit [of staleSnapshotWorld warmHandler "''dependency''" "- 1"]
  by (auto simp add: warm_search warmHandler_def)

section \<open>The empty query at executeTool\<close>

lemma searchTerragruntDocs_returns:
  "\<exists>hits n hasMore w' h'.
     searchTerragruntDocs w h query limitArg = (Inr (SearchResults query hits n hasMore), w', h')"
proof -
  obtain results w' rm where "searchDocs w (resourceHandler h) query = (Inr results, w', rm)"
    using searchDocs_returns by blast
  then show ?thesis
    by (simp add: searchTerragruntDocs_def searchDocumentation_def Let_def)
qed

text \<open>
  C10. \<open>executeTool\<close> for \<open>search_terragrunt_docs\<close> with the empty string as query
  returns the error object \<open>query parameter is required\<close> and leaves the world and the
  handler as they were: no search is made. So no call of the tool returns search
  results for the empty query, although \<open>searchDocs\<close> itself returns every document
  for it.
\<close>

theorem executeTool_empty_query:
  "(argQuery a = Some [] \<longrightarrow>
      executeTool w h ''search_terragrunt_docs'' (Some a) =
        (ErrorResult ''query parameter is required'', w, h)) \<and>
   (executeTool w h ''search_terragrunt_docs'' args = (SearchResults q hits n hasMore, w', h')
      \<longrightarrow> q \<noteq> [])"
proof
  show "argQuery a = Some [] \<longrightarrow>
      executeTool w h ''search_terragrunt_docs'' (Some a) =
        (ErrorResult ''query parameter is required'', w, h)"
    by (simp add: executeTool_def executeTool_try_def missing_def)
next
  show "executeTool w h ''search_terragrunt_docs'' args =
          (SearchResults q hits n hasMore, w', h') \<longrightarrow> q \<noteq> []"
  proof (cases "missing args argQuery")
    case True
    then show ?thesis
      by (simp add: executeTool_def executeTool_try_def)
  next
    case False
    then have g: "given args argQuery \<noteq> []"
      by (auto simp: missing_def given_def split: option.splits)
    obtain hs t mo w'' h'' where
      "searchTerragruntDocs w h (given args argQuery) (limitOf args) =
         (Inr (SearchResults (given args argQuery) hs t mo), w'', h'')"
      using searchTerragruntDocs_returns by blast
    with False g show ?thesis
      by (auto simp add: executeTool_def executeTool_try_def)
  qed
qed

lemma body_all: "searchDocs_body [docQuickStart, docDependency] [] = [docQuickStart, docDependency]"
  by (rule searchDocs_body_empty_query)

theorem executeTool_empty_query_witness:
  "argQuery emptyQueryArgs = Some [] \<and>
   executeTool staleSnapshotWorld warmHandler ''search_terragrunt_docs'' (Some emptyQueryArgs) =
     (ErrorResult ''query parameter is required'', staleSnapshotWorld, warmHandler) \<and>
   fst (searchDocs staleSnapshotWorld warmManager []) = Inr [docQuickStart, docDependency]"
  using executeTool_empty_query [of emptyQueryArgs staleSnapshotWorld warmHandler]
  by (simp add: emptyQueryArgs_def searchDocs_def engine_defs warmManager_def
      staleSnapshotWorld_def hours_def body_all)

end
